theory Spec2Isabelle
  imports Complex_Main "HOL-Library.Word"
begin

section \<open>JavaScript values used by the PDF service\<close>

text \<open>
  A JavaScript string is a sequence of 16-bit code units. \<open>substring\<close>, \<open>length\<close> and
  a regular expression without the \<open>u\<close> flag all work on code units, so the model does too.
  Source literals are ASCII and are written with \<open>str\<close>.
\<close>

type_synonym jschar = "16 word"
type_synonym jsstring = "jschar list"

definition str :: "string \<Rightarrow> jsstring" where
  "str s = map of_char s"

text \<open>A template literal that starts every one of its lines with a line feed.\<close>

definition jslines :: "jsstring list \<Rightarrow> jsstring" where
  "jslines ls = concat (map (\<lambda>l. 0x0A # l) ls)"

text \<open>\<open>s.substring(i, j)\<close> for non-negative integer arguments.\<close>

definition substring :: "jsstring \<Rightarrow> nat \<Rightarrow> nat \<Rightarrow> jsstring" where
  "substring s i j = take (max i j - min i j) (drop (min i j) s)"

text \<open>\<open>s.includes(p)\<close>.\<close>

fun includes_str :: "jsstring \<Rightarrow> jsstring \<Rightarrow> bool" where
  "includes_str [] p = (p = [])"
| "includes_str (c # cs) p = (take (length p) (c # cs) = p \<or> includes_str cs p)"

text \<open>
  \<open>s.split(sep)\<close> for a separator of one code unit: the pieces between separators; the
  empty string gives one empty piece.
\<close>

fun split_char :: "jschar \<Rightarrow> jsstring \<Rightarrow> jsstring list" where
  "split_char sep [] = [] # []"
| "split_char sep (c # cs) =
     (if c = sep then [] # split_char sep cs
      else (case split_char sep cs of [] \<Rightarrow> [c] # [] | l # ls \<Rightarrow> (c # l) # ls))"

text \<open>ECMAScript WhiteSpace and LineTerminator code units, which \<open>trim\<close> strips.\<close>

definition isWhiteSpace :: "jschar \<Rightarrow> bool" where
  "isWhiteSpace c \<longleftrightarrow>
     c = 0x09 \<or> c = 0x0A \<or> c = 0x0B \<or> c = 0x0C \<or> c = 0x0D \<or> c = 0x20 \<or> c = 0xA0 \<or>
     c = 0x1680 \<or> (0x2000 \<le> c \<and> c \<le> 0x200A) \<or> c = 0x2028 \<or> c = 0x2029 \<or>
     c = 0x202F \<or> c = 0x205F \<or> c = 0x3000 \<or> c = 0xFEFF"

definition trim :: "jsstring \<Rightarrow> jsstring" where
  "trim s = rev (dropWhile isWhiteSpace (rev (dropWhile isWhiteSpace s)))"

text \<open>\<open>s.replace(/[^\x20-\x7E]/g, " ")\<close>.\<close>

definition replace_non_printable :: "jsstring \<Rightarrow> jsstring" where
  "replace_non_printable s = map (\<lambda>c. if 0x20 \<le> c \<and> c \<le> 0x7E then c else 0x20) s"

text \<open>
  \<open>v || d\<close> for a string-valued \<open>v\<close> that may be null or undefined: null, undefined and the
  empty string are falsy.
\<close>

definition or_else :: "jsstring option \<Rightarrow> jsstring \<Rightarrow> jsstring" where
  "or_else v d = (case v of None \<Rightarrow> d | Some s \<Rightarrow> if s = [] then d else s)"

text \<open>\<open>xs.join(sep)\<close>.\<close>

fun join :: "jsstring list \<Rightarrow> jsstring \<Rightarrow> jsstring" where
  "join [] sep = []"
| "join [x] sep = x"
| "join (x # y # ys) sep = x @ sep @ join (y # ys) sep"

text \<open>A non-negative integer number converted to a string (decimal digits).\<close>

fun showNat :: "nat \<Rightarrow> jsstring" where
  "showNat n =
     (if n < 10 then [of_nat (48 + n)] else showNat (n div 10) @ [of_nat (48 + n mod 10)])"

declare showNat.simps [simp del]

text \<open>
  A number field of the document: it is undefined (absent), null, or a non-negative
  integer.
\<close>

datatype number_field = Undefined | Null | Number nat

text \<open>
  \<open>`${n}`\<close> for a number field: the template literal prints \<open>undefined\<close> for an undefined
  field, \<open>null\<close> for a null one and the decimal digits of a number.
\<close>

definition template_number :: "number_field \<Rightarrow> jsstring" where
  "template_number v =
     (case v of Undefined \<Rightarrow> str ''undefined'' | Null \<Rightarrow> str ''null'' | Number n \<Rightarrow> showNat n)"

text \<open>\<open>n || 0\<close> for a number field: undefined, null and 0 are falsy.\<close>

definition number_or_zero :: "number_field \<Rightarrow> nat" where
  "number_or_zero v = (case v of Undefined \<Rightarrow> 0 | Null \<Rightarrow> 0 | Number n \<Rightarrow> n)"

subsection \<open>Dates\<close>

text \<open>
  \<open>new Date(v)\<close> is read through its local calendar date, which is all that
  \<open>toLocaleDateString\<close> prints. With the locale \<open>en-GB\<close> the pattern is
  \<open>dd/MM/y\<close>: two-digit day and month, the year as it is.
\<close>

record jsdate =
  year :: nat
  month :: nat
  day :: nat

definition pad2 :: "nat \<Rightarrow> jsstring" where
  "pad2 n = (if n < 10 then str ''0'' @ showNat n else showNat n)"

definition toLocaleDateString_en_GB :: "jsdate \<Rightarrow> jsstring" where
  "toLocaleDateString_en_GB d = pad2 (day d) @ str ''/'' @ pad2 (month d) @ str ''/'' @ showNat (year d)"

section \<open>Data model\<close>

record ControlCopyInfo =
  userId :: jsstring
  userFullName :: jsstring
  controlCopyNumber :: nat
  date :: jsstring

text \<open>
  Modelled from the spec: the type \<open>Document\<close> of \<open>@shared/schema\<close> is imported by the
  service and is not among the source files. The record has the fields the service reads;
  \<open>None\<close> is a null or undefined field, for the fields that the service only tests or
  reads through \<open>||\<close>; the revision number, which it also prints as it is, keeps the two
  apart. The fields read through \<open>(document as any)\<close> are included. As in the data model
  of the specification, the names are strings that are always there, the revision number,
  when set, is a non-negative integer and a date, when set, is a valid calendar date.
\<close>

record UserData =
  fullName :: "jsstring option"

record Document =
  docName :: jsstring
  docNumber :: jsstring
  issueNo :: "jsstring option"
  revisionNo :: number_field
  dateOfIssue :: "jsdate option"
  reviewDueDate :: "jsdate option"
  status :: jsstring
  reasonForRevision :: "jsstring option"
  headerInfo :: "jsstring option"
  footerInfo :: "jsstring option"
  content :: "jsstring option"
  departmentNames :: "jsstring list option"
  preparerName :: "jsstring option"
  approverName :: "jsstring option"
  issuerName :: "jsstring option"
  creatorData :: "UserData option"
  approverData :: "UserData option"
  issuerData :: "UserData option"

subsection \<open>What the fallback renderer draws\<close>

datatype font = Helvetica | HelveticaBold

text \<open>
  One call on a pdf-lib page: \<open>drawText(text, {x, y, size, font})\<close> or
  \<open>drawRectangle({x, y, width, height})\<close> with a black border of width 1. Coordinates are
  points; the source computes them from the decimal constants 595.28 and 841.89, kept exact
  here as rationals.
\<close>

datatype drawop =
  DrawText jsstring rat rat nat font
| DrawRectangle rat rat rat rat

type_synonym page = "drawop list"

section \<open>The environment of a conversion\<close>

text \<open>
  Everything the service gets from outside the source: the file system, mammoth, puppeteer,
  pdf-lib, the clock and the host locale. An error is the message of the thrown value. Each
  field is the outcome of the call of that name; \<open>None\<close> of an option is a call that
  resolves, \<open>Inl\<close> of a sum is a call that rejects. Every call settles, and within one
  conversion its outcome depends on its arguments only: the file, the clock and the day do
  not change between the primary and the fallback stage. \<open>toUpperCase\<close> is the host's
  Unicode upper-casing, and \<open>toLocaleDateString_default\<close> is \<open>toLocaleDateString()\<close>
  with no locale argument, which formats in the default locale of the host.
\<close>

type_synonym bytes = "8 word list"

record World =
  cwd :: jsstring
  Date_now :: nat
  today :: jsdate
  toLocaleDateString_default :: "jsdate \<Rightarrow> jsstring"
  toUpperCase :: "jsstring \<Rightarrow> jsstring"
  fs_access :: "jsstring \<Rightarrow> jsstring option"
  fs_readFile :: "jsstring \<Rightarrow> jsstring + bytes"
  fs_writeFile :: "jsstring \<Rightarrow> bytes \<Rightarrow> jsstring option"
  mammoth_convertToHtml :: "bytes \<Rightarrow> jsstring + jsstring option"
  mammoth_extractRawText :: "bytes \<Rightarrow> jsstring + jsstring option"
  puppeteer_launch :: "jsstring option"
  browser_newPage :: "jsstring option"
  page_setContent :: "jsstring \<Rightarrow> jsstring option"
  page_evaluate :: "jsstring option"
  page_pdf :: "jsstring \<Rightarrow> jsstring \<Rightarrow> jsstring \<Rightarrow> jsstring + bytes"
  browser_close :: "jsstring option"
  import_pdf_lib :: "jsstring option"
  PDFDocument_create :: "jsstring option"
  pdfDoc_embedFont :: "font \<Rightarrow> jsstring option"
  page_drawText :: "jsstring \<Rightarrow> jsstring option"
  pdfDoc_save :: "page list \<Rightarrow> jsstring + bytes"

section \<open>Header and footer templates of the primary renderer\<close>

text \<open>
  The page that is given to the browser. The function computes a number of locals that its
  template never uses; they have no effect and are left out.
\<close>

definition wrapWithHeavyDutyTheme ::
  "World \<Rightarrow> Document \<Rightarrow> jsstring \<Rightarrow> ControlCopyInfo option \<Rightarrow> jsstring" where
  \<open>wrapWithHeavyDutyTheme w document body controlCopyInfo = jslines [
     str ''<!DOCTYPE html>'',
     str ''<html>'',
     str ''<head>'',
     str ''  <style>'',
     str ''    @page { size: A4; margin: 160px 45px 160px 45px; }'',
     str ''    body { font-family: 'Segoe UI', Calibri, Arial, sans-serif; margin: 0; padding: 0; color: black; background: white; }'',
     str ''    .content-body { font-size: 11pt; line-height: 1.5; color: black; padding-top: 10px; }'',
     str ''    .content-body h1 { text-align: center; text-decoration: underline; font-size: 14pt; margin-bottom: 25px; font-weight: bold; }'',
     str ''    .document-table { width: 100%; border-collapse: collapse; margin-bottom: 20px; }'',
     str ''    .document-table td, .document-table th { border: 1pt solid black; padding: 8px; }'',
     str ''  </style>'',
     str ''</head>'',
     str ''<body>'',
     str ''  <div class="content-body">'',
     str ''    <h1>'' @ toUpperCase w (docName document) @ str ''</h1>'',
     str ''    <div class="document-content">'',
     str ''      '' @ body,
     str ''    </div>'',
     str ''    '' @ (case content document of
                      None \<Rightarrow> []
                    | Some c \<Rightarrow> if c = [] then []
                               else str ''<div style="margin-top: 20px;">'' @ c @ str ''</div>''),
     str ''  </div>'',
     str ''</body>'',
     str ''</html>'']\<close>

definition getHeaderTemplate :: "World \<Rightarrow> Document \<Rightarrow> jsstring" where
  \<open>getHeaderTemplate w document =
    (let dateOfIssue = (case Document.dateOfIssue document of
                          Some d \<Rightarrow> toLocaleDateString_en_GB d
                        | None \<Rightarrow> toLocaleDateString_en_GB (today w));
         dueDate = (case reviewDueDate document of
                      Some d \<Rightarrow> toLocaleDateString_en_GB d
                    | None \<Rightarrow> str ''N/A'');
         revDate = (case Document.dateOfIssue document of
                      Some d \<Rightarrow> toLocaleDateString_en_GB d
                    | None \<Rightarrow> toLocaleDateString_en_GB (today w));
         dueRevDate = (case reviewDueDate document of
                         Some d \<Rightarrow> toLocaleDateString_en_GB d
                       | None \<Rightarrow> str ''N/A'')
     in jslines [
     str ''      <style>'',
     str ''        .header-container { margin: 0 45px; font-family: 'Segoe UI', Arial, sans-serif; }'',
     str ''        .header-table { width: 100%; border-collapse: collapse; border: 1pt solid #000; table-layout: fixed; }'',
     str ''        .header-table td { border: 1pt solid #000; padding: 4px 8px; vertical-align: middle; font-size: 8pt; }'',
     str ''        .company-name { text-align: center; font-weight: bold; font-size: 10pt; text-transform: uppercase; padding: 10px !important; }'',
     str ''        .bold-text { font-weight: bold; }'',
     str ''        .center-text { text-align: center; }'',
     str ''        .nowrap { white-space: nowrap; }'',
     str ''      </style>'',
     str ''      <div class="header-container">'',
     str ''        <table class="header-table">'',
     str ''          <tr>'',
     str ''            <td colspan="5" class="company-name">NEELIKON FOOD DYES AND CHEMICALS LIMITED</td>'',
     str ''          </tr>'',
     str ''          <tr>'',
     str ''            <td style="width: 15%;"><span class="bold-text">Issue No:</span> '' @ or_else (issueNo document) (str ''01'') @ str ''</td>'',
     str ''            <td style="width: 25%;"><span class="bold-text">Date of Issue:</span> '' @ dateOfIssue @ str ''</td>'',
     str ''            <td style="width: 15%;"><span class="bold-text">Rev. No:</span> '' @ showNat (number_or_zero (revisionNo document)) @ str ''</td>'',
     str ''            <td style="width: 35%;">'',
     str ''              <div class="nowrap"><span class="bold-text">Date of Rev. :</span> '' @ revDate @ str ''</div>'',
     str ''              <div class="nowrap"><span class="bold-text">Due Date of Rev. :</span> '' @ dueRevDate @ str ''</div>'',
     str ''            </td>'',
     str ''            <td style="width: 10%;" class="center-text">Page <span class="pageNumber"></span> of <span class="totalPages"></span></td>'',
     str ''          </tr>'',
     str ''          <tr>'',
     str ''            <td colspan="2"><span class="bold-text">Dept. :</span> '' @ or_else (case departmentNames document of Some (d # ds) \<Rightarrow> Some d | _ \<Rightarrow> None) (str ''Management Representative'') @ str ''</td>'',
     str ''            <td colspan="2"><span class="bold-text">Title :</span> '' @ docName document @ str ''</td>'',
     str ''            <td><span class="bold-text">Doc. No:</span> '' @ docNumber document @ str ''</td>'',
     str ''          </tr>'',
     str ''        </table>'',
     str ''      </div>'',
     str ''    ''])\<close>

definition getFooterTemplate :: "World \<Rightarrow> Document \<Rightarrow> ControlCopyInfo option \<Rightarrow> jsstring" where
  \<open>getFooterTemplate w document controlCopyInfo =
    (let preparer = or_else (preparerName document)
                      (or_else (Option.bind (creatorData document) fullName) (str ''Asst. MR''));
         approver = or_else (approverName document)
                      (or_else (Option.bind (approverData document) fullName) (str ''HOD''));
         issuer = or_else (issuerName document)
                    (or_else (Option.bind (issuerData document) fullName)
                       (str ''Management Representative { MR }''));
         status = toUpperCase w (Document.status document)
     in jslines [
     str ''      <style>'',
     str ''        .footer-container { margin: 0 45px; font-family: 'Segoe UI', Arial, sans-serif; width: 100%; }'',
     str ''        .footer-table { width: calc(100% - 90px); border-collapse: collapse; border: 1pt solid #000; table-layout: fixed; }'',
     str ''        .footer-table td { border: 1pt solid #000; padding: 4px; vertical-align: top; font-size: 8pt; height: 60px; }'',
     str ''        .footer-label { font-weight: bold; margin-bottom: 20px; display: block; }'',
     str ''        .footer-value { display: block; margin-top: auto; }'',
     str ''        .status-cell { vertical-align: middle !important; text-align: center; font-weight: bold; font-size: 10pt; }'',
     str ''      </style>'',
     str ''      <div class="footer-container">'',
     str ''        <table class="footer-table">'',
     str ''          <tr>'',
     str ''            <td style="width: 20%;">'',
     str ''              <span class="footer-label">Prepared by</span>'',
     str ''              <span class="footer-value">'' @ preparer @ str ''</span>'',
     str ''            </td>'',
     str ''            <td style="width: 20%;">'',
     str ''              <span class="footer-label">Approved by</span>'',
     str ''              <span class="footer-value">'' @ approver @ str ''</span>'',
     str ''            </td>'',
     str ''            <td style="width: 35%;">'',
     str ''              <span class="footer-label">Issued by</span>'',
     str ''              <span class="footer-value">'' @ issuer @ str ''</span>'',
     str ''            </td>'',
     str ''            <td style="width: 25%" class="status-cell">'',
     str ''              <span class="footer-label">Status</span>'',
     str ''              '' @ status,
     str ''            </td>'',
     str ''          </tr>'',
     str ''        </table>'',
     str ''        '' @ (case controlCopyInfo of
                          None \<Rightarrow> []
                        | Some c \<Rightarrow> jslines [
     str ''          <div style="text-align: center; font-size: 7pt; color: #856404; background: #fff3cd; border: 0.5pt dashed #ffc107; padding: 2px; margin-top: 5px; width: calc(100% - 90px);">'',
     str ''            CONTROLLED COPY - NOT FOR REPRODUCTION | Printed by: '' @ userFullName c,
     str ''          </div>'',
     str ''        '']),
     str ''      </div>'',
     str ''    ''])\<close>

text \<open>The \<open>footerTemplate\<close> option that \<open>page.pdf\<close> receives, around \<open>footerHtml\<close>.\<close>

definition pdfFooterTemplate :: "jsstring \<Rightarrow> jsstring" where
  \<open>pdfFooterTemplate footerHtml = jslines [
     str ''          <div style="width: 100%; font-size: 8pt; font-family: 'Segoe UI', Arial, sans-serif;">'',
     str ''            <script>'',
     str ''              (function() {'',
     str ''                const pageNum = document.querySelector('.pageNumber');'',
     str ''                const totalPages = document.querySelector('.totalPages');'',
     str ''                if (pageNum && totalPages && pageNum.textContent !== totalPages.textContent) {'',
     str ''                  document.body.style.display = 'none';'',
     str ''                }'',
     str ''              })();'',
     str ''            </script>'',
     str ''            '' @ footerHtml,
     str ''          </div>'',
     str ''        '']\<close>

section \<open>Paths\<close>

text \<open>
  \<open>path.join\<close> of Node on a POSIX host, for two arguments: the non-empty arguments are
  joined with a slash and the result is normalised. Normalising drops empty and \<open>.\<close>
  segments and lets a \<open>..\<close> segment remove the segment before it; above the root of an
  absolute path a \<open>..\<close> is dropped, in a relative path it is kept.
\<close>

fun resolve_segments :: "bool \<Rightarrow> jsstring list \<Rightarrow> jsstring list \<Rightarrow> jsstring list" where
  "resolve_segments allowAboveRoot res [] = res"
| "resolve_segments allowAboveRoot res (seg # segs) =
     (if seg = [] \<or> seg = str ''.'' then resolve_segments allowAboveRoot res segs
      else if seg = str ''..'' then
        (if res \<noteq> [] \<and> last res \<noteq> str ''..''
           then resolve_segments allowAboveRoot (butlast res) segs
         else if allowAboveRoot
           then resolve_segments allowAboveRoot (res @ [str ''..'']) segs
         else resolve_segments allowAboveRoot res segs)
      else resolve_segments allowAboveRoot (res @ [seg]) segs)"

definition path_normalize :: "jsstring \<Rightarrow> jsstring" where
  "path_normalize p =
     (if p = [] then str ''.''
      else
        let isAbsolute = (hd p = 0x2F);
            trailingSeparator = (last p = 0x2F);
            res = join (resolve_segments (\<not> isAbsolute) [] (split_char 0x2F p)) (str ''/'')
        in if res = [] then
             (if isAbsolute then str ''/'' else if trailingSeparator then str ''./'' else str ''.'')
           else (if isAbsolute then str ''/'' else []) @ res
                @ (if trailingSeparator then str ''/'' else []))"

definition path_join :: "jsstring \<Rightarrow> jsstring \<Rightarrow> jsstring" where
  "path_join a b =
     (let joined = (if a = [] then b else if b = [] then a else a @ str ''/'' @ b)
      in if joined = [] then str ''.'' else path_normalize joined)"

definition uploadsDir :: "World \<Rightarrow> jsstring" where
  "uploadsDir w = path_join (cwd w) (str ''uploads'')"

definition pdfsDir :: "World \<Rightarrow> jsstring" where
  "pdfsDir w = path_join (cwd w) (str ''pdfs'')"

section \<open>The fallback renderer's page composition\<close>

text \<open>The size of every page, as \<open>page.getSize()\<close> returns it for \<open>addPage([595.28, 841.89])\<close>.\<close>

definition width :: rat where
  "width = 59528 / 100"

definition height :: rat where
  "height = 84189 / 100"

text \<open>\<open>drawHeader(p)\<close>: the calls it makes on the page, in order.\<close>

definition drawHeader :: "World \<Rightarrow> Document \<Rightarrow> drawop list" where
  "drawHeader w document =
    (let companyHeader = toUpperCase w (or_else (headerInfo document) []);
         dateOfIssue = (case Document.dateOfIssue document of
                          Some d \<Rightarrow> toLocaleDateString_default w d
                        | None \<Rightarrow> toLocaleDateString_default w (today w));
         dueDate = (case reviewDueDate document of
                      Some d \<Rightarrow> toLocaleDateString_default w d
                    | None \<Rightarrow> str ''N/A'')
     in [DrawText (str ''Document Name: '' @ substring (docName document) 0 60
                   @ str '' | Document Number: '' @ substring (docNumber document) 0 30)
           45 (height - 30) 9 HelveticaBold,
         DrawRectangle 40 (height - 135) (width - 80) 95,
         DrawText (substring companyHeader 0 70) 50 (height - 60) 11 HelveticaBold,
         DrawText (str ''Issue No: '' @ or_else (issueNo document) (str ''01'')
                   @ str '' | Revision No: '' @ showNat (number_or_zero (revisionNo document)))
           45 (height - 85) 9 Helvetica,
         DrawText (str ''Date of Issue: '' @ dateOfIssue @ str '' | Due Date: '' @ dueDate)
           45 (height - 100) 9 Helvetica,
         DrawText (str ''Page: 1 of 1'') 45 (height - 115) 9 Helvetica])"

text \<open>
  The loop over the lines. The state is the document's earlier pages, the page that the
  variable \<open>page\<close> refers to (the last one added) and \<open>y\<close>. In the source \<open>y\<close> is a
  double; its exact values are 671.89 minus a multiple of 15, never within 3 points of the
  threshold 150, so rounding changes no comparison.
\<close>

fun drawLines ::
  "drawop list \<Rightarrow> jsstring list \<Rightarrow> page list \<times> page \<times> rat \<Rightarrow> page list \<times> page \<times> rat" where
  "drawLines hdr [] st = st"
| "drawLines hdr (line # lines) (earlier, page, y) =
     (let (earlier1, page1, y1) =
            (if y < 150 then (earlier @ [page], hdr, height - 170) else (earlier, page, y));
          cleanLine = replace_non_printable (substring line 0 95)
      in drawLines hdr lines
           (earlier1, page1 @ [DrawText cleanLine 50 y1 10 Helvetica], y1 - 15))"

text \<open>The lines that are drawn: \<open>content.split('\n').filter(l => l.trim().length > 0)\<close>.\<close>

definition contentLines :: "jsstring \<Rightarrow> jsstring list" where
  "contentLines content' = filter (\<lambda>l. length (trim l) > 0) (split_char 0x0A content')"

text \<open>The pages of the document when the loop has ended.\<close>

definition composePages :: "World \<Rightarrow> Document \<Rightarrow> jsstring \<Rightarrow> page list" where
  "composePages w document content' =
     (case drawLines (drawHeader w document) (contentLines content')
             ([], drawHeader w document, height - 170) of
        (earlier, page, y) \<Rightarrow> earlier @ [page])"

text \<open>
  pdf-lib's \<open>drawText\<close> throws on a text that the font cannot encode. The pages are in
  memory only, so of a failing composition only the first error is seen.
\<close>

definition firstDrawError :: "World \<Rightarrow> page list \<Rightarrow> jsstring option" where
  "firstDrawError w pages =
     (case List.map_filter
             (\<lambda>op. case op of DrawText t x y sz f \<Rightarrow> page_drawText w t
                              | DrawRectangle x y wd ht \<Rightarrow> None)
             (concat pages) of
        [] \<Rightarrow> None
      | e # es \<Rightarrow> Some e)"

section \<open>Calls, exceptions and the trace of a conversion\<close>

text \<open>
  Every call the service makes outside itself is recorded, in order. The trace is how the
  properties below speak about what was attempted.
\<close>

datatype event =
  ConsoleLog jsstring
| ConsoleError jsstring
| FsAccess jsstring
| FsReadFile jsstring
| FsWriteFile jsstring bytes
| MammothConvertToHtml bytes
| MammothExtractRawText bytes
| PuppeteerLaunch
| BrowserNewPage
| PageSetContent jsstring
| PageEvaluate
| PagePdf jsstring jsstring
| BrowserClose
| ImportPdfLib
| PDFDocumentCreate
| EmbedFont font
| PdfDocSave "page list"

text \<open>
  The state of a run: the trace so far and the local variable \<open>browser\<close> of
  \<open>convertWordToPDFWithPuppeteer\<close> (\<open>False\<close> is undefined).
\<close>

record Proc =
  trace :: "event list"
  browser :: bool

text \<open>An asynchronous computation: it throws (\<open>Inl\<close> the message) or returns.\<close>

type_synonym 'a io = "Proc \<Rightarrow> (jsstring + 'a) \<times> Proc"

definition io_return :: "'a \<Rightarrow> 'a io" where
  "io_return x s = (Inr x, s)"

definition io_bind :: "'a io \<Rightarrow> ('a \<Rightarrow> 'b io) \<Rightarrow> 'b io" where
  "io_bind m f s = (case m s of (Inl e, s') \<Rightarrow> (Inl e, s') | (Inr x, s') \<Rightarrow> f x s')"

text \<open>\<open>try { m } catch (err) { h err }\<close>\<close>

definition try_catch :: "'a io \<Rightarrow> (jsstring \<Rightarrow> 'a io) \<Rightarrow> 'a io" where
  "try_catch m h s = (case m s of (Inl e, s') \<Rightarrow> h e s' | (Inr x, s') \<Rightarrow> (Inr x, s'))"

text \<open>
  \<open>try { m } finally { fin }\<close>: \<open>fin\<close> runs on every exit of \<open>m\<close>; when it throws, its
  exception replaces the outcome of \<open>m\<close>.
\<close>

definition try_finally :: "'a io \<Rightarrow> unit io \<Rightarrow> 'a io" where
  "try_finally m fin s =
     (case m s of (r, s') \<Rightarrow>
        (case fin s' of (Inl e, s'') \<Rightarrow> (Inl e, s'') | (Inr u, s'') \<Rightarrow> (r, s'')))"

text \<open>An outside call: it is recorded, and its outcome is the world's.\<close>

definition call :: "event \<Rightarrow> jsstring + 'a \<Rightarrow> 'a io" where
  "call ev outcome s = (outcome, s\<lparr>trace := trace s @ [ev]\<rparr>)"

definition rejects :: "jsstring option \<Rightarrow> jsstring + unit" where
  "rejects e = (case e of None \<Rightarrow> Inr () | Some m \<Rightarrow> Inl m)"

definition set_browser :: "bool \<Rightarrow> unit io" where
  "set_browser b s = (Inr (), s\<lparr>browser := b\<rparr>)"

section \<open>The primary renderer\<close>

text \<open>The body of the \<open>try\<close> block of \<open>convertWordToPDFWithPuppeteer\<close>.\<close>

definition puppeteerTry ::
  "World \<Rightarrow> jsstring \<Rightarrow> Document \<Rightarrow> ControlCopyInfo option \<Rightarrow> jsstring io" where
  "puppeteerTry w wordFilePath document controlCopyInfo =
     io_bind (call (FsAccess wordFilePath) (rejects (fs_access w wordFilePath))) (\<lambda>u.
     io_bind (call (FsReadFile wordFilePath) (fs_readFile w wordFilePath)) (\<lambda>wordBuffer.
     io_bind (call (MammothConvertToHtml wordBuffer) (mammoth_convertToHtml w wordBuffer)) (\<lambda>result.
     let htmlContent = or_else result [];
         fullHtml = wrapWithHeavyDutyTheme w document htmlContent controlCopyInfo
     in
     io_bind (call PuppeteerLaunch (rejects (puppeteer_launch w))) (\<lambda>u.
     io_bind (set_browser True) (\<lambda>u.
     io_bind (call BrowserNewPage (rejects (browser_newPage w))) (\<lambda>u.
     io_bind (call (PageSetContent fullHtml) (rejects (page_setContent w fullHtml))) (\<lambda>u.
     io_bind (call PageEvaluate (rejects (page_evaluate w))) (\<lambda>u.
     let pdfFileName = docNumber document @ str ''_v'' @ template_number (revisionNo document)
                       @ str ''_final_'' @ showNat (Date_now w) @ str ''.pdf'';
         pdfPath = path_join (pdfsDir w) pdfFileName;
         headerHtml = getHeaderTemplate w document;
         footerHtml = getFooterTemplate w document controlCopyInfo
     in
     io_bind (call (PagePdf headerHtml (pdfFooterTemplate footerHtml))
                (page_pdf w fullHtml headerHtml (pdfFooterTemplate footerHtml))) (\<lambda>pdfBuffer.
     io_bind (call (FsWriteFile pdfPath pdfBuffer) (rejects (fs_writeFile w pdfPath pdfBuffer))) (\<lambda>u.
     io_return pdfPath))))))))))"

text \<open>The \<open>finally\<close> block: \<open>if (browser) await browser.close()\<close>.\<close>

definition puppeteerFinally :: "World \<Rightarrow> unit io" where
  "puppeteerFinally w s =
     (if browser s then call BrowserClose (rejects (browser_close w)) s else io_return () s)"

definition convertWordToPDFWithPuppeteer ::
  "World \<Rightarrow> jsstring \<Rightarrow> Document \<Rightarrow> ControlCopyInfo option \<Rightarrow> jsstring io" where
  "convertWordToPDFWithPuppeteer w wordFilePath document controlCopyInfo =
     io_bind (set_browser False) (\<lambda>u.
     try_finally (puppeteerTry w wordFilePath document controlCopyInfo) (puppeteerFinally w))"

section \<open>The fallback renderer\<close>

text \<open>The body of the \<open>try\<close> block of \<open>convertWordToPDFAlternative\<close>.\<close>

definition alternativeTry ::
  "World \<Rightarrow> jsstring \<Rightarrow> Document \<Rightarrow> ControlCopyInfo option \<Rightarrow> jsstring io" where
  "alternativeTry w wordFilePath document controlCopyInfo =
     io_bind (call ImportPdfLib (rejects (import_pdf_lib w))) (\<lambda>u.
     io_bind (call (FsReadFile wordFilePath) (fs_readFile w wordFilePath)) (\<lambda>wordBuffer.
     io_bind (call (MammothExtractRawText wordBuffer) (mammoth_extractRawText w wordBuffer)) (\<lambda>textResult.
     let content' = or_else textResult [] in
     io_bind (call PDFDocumentCreate (rejects (PDFDocument_create w))) (\<lambda>u.
     io_bind (call (EmbedFont Helvetica) (rejects (pdfDoc_embedFont w Helvetica))) (\<lambda>u.
     io_bind (call (EmbedFont HelveticaBold) (rejects (pdfDoc_embedFont w HelveticaBold))) (\<lambda>u.
     let pages = composePages w document content' in
     io_bind (\<lambda>s. (rejects (firstDrawError w pages), s)) (\<lambda>u.
     let pdfFileName = docNumber document @ str ''_v'' @ template_number (revisionNo document)
                       @ str ''_fallback_'' @ showNat (Date_now w) @ str ''.pdf'';
         pdfPath = path_join (pdfsDir w) pdfFileName
     in
     io_bind (call (PdfDocSave pages) (pdfDoc_save w pages)) (\<lambda>pdfBytes.
     io_bind (call (FsWriteFile pdfPath pdfBytes) (rejects (fs_writeFile w pdfPath pdfBytes))) (\<lambda>u.
     io_return pdfPath)))))))))"

definition convertWordToPDFAlternative ::
  "World \<Rightarrow> jsstring \<Rightarrow> Document \<Rightarrow> ControlCopyInfo option \<Rightarrow> jsstring io" where
  "convertWordToPDFAlternative w wordFilePath document controlCopyInfo =
     try_catch (alternativeTry w wordFilePath document controlCopyInfo) (\<lambda>fallbackErr.
       io_bind (call (ConsoleError (str ''[PDF] Fallback engine also failed: '' @ fallbackErr))
                  (Inr ())) (\<lambda>u.
       (\<lambda>s. (Inl (str ''PDF generation failed completely: '' @ fallbackErr), s))))"

section \<open>The coordinator\<close>

definition convertWordToPDF ::
  "World \<Rightarrow> jsstring \<Rightarrow> Document \<Rightarrow> ControlCopyInfo option \<Rightarrow> jsstring io" where
  "convertWordToPDF w wordFilePath document controlCopyInfo =
     try_catch
       (io_bind (call (ConsoleLog (str ''[PDF] Attempting Puppeteer PDF for: '' @ docNumber document))
                   (Inr ())) (\<lambda>u.
        convertWordToPDFWithPuppeteer w wordFilePath document controlCopyInfo))
       (\<lambda>err.
        io_bind (call (ConsoleError (str ''[PDF] Puppeteer failed: '' @ err
                                      @ str ''. Switching to Professional Fallback...''))
                   (Inr ())) (\<lambda>u.
        convertWordToPDFAlternative w wordFilePath document controlCopyInfo))"

text \<open>A run starts with an empty trace.\<close>

definition start :: Proc where
  "start = \<lparr>trace = [], browser = False\<rparr>"

section \<open>Vocabulary of the properties\<close>

text \<open>The text that the loop draws for a line.\<close>

definition cleanLine :: "jsstring \<Rightarrow> jsstring" where
  "cleanLine line = replace_non_printable (substring line 0 95)"

text \<open>The text and the height of a drawing call.\<close>

fun opText :: "drawop \<Rightarrow> jsstring" where
  "opText (DrawText t x y sz f) = t"
| "opText (DrawRectangle x y wd ht) = []"

text \<open>
  \<open>bodyFrom k ops\<close>: the calls \<open>ops\<close> are body lines number \<open>k\<close>, \<open>k + 1\<close>, ... of a page:
  texts at \<open>x = 50\<close> in Helvetica 10, the first at \<open>height - 170\<close> and each 15 points below
  the one before.
\<close>

fun bodyFrom :: "nat \<Rightarrow> drawop list \<Rightarrow> bool" where
  "bodyFrom k [] = True"
| "bodyFrom k (DrawText t x y sz f # ops) =
     (x = 50 \<and> y = height - 170 - 15 * of_nat k \<and> sz = 10 \<and> f = Helvetica \<and> bodyFrom (Suc k) ops)"
| "bodyFrom k (DrawRectangle x y wd ht # ops) = False"

fun opY :: "drawop \<Rightarrow> rat" where
  "opY (DrawText t x y sz f) = y"
| "opY (DrawRectangle x y wd ht) = y"

text \<open>
  The invariant of the loop of the fallback renderer, after the lines \<open>drawn\<close>.
\<close>

definition layoutInv :: "drawop list \<Rightarrow> jsstring list \<Rightarrow> page list \<times> page \<times> rat \<Rightarrow> bool" where
  "layoutInv hdr drawn st = (case st of (earlier, page, y) \<Rightarrow>
     (\<exists>body. page = hdr @ body \<and> bodyFrom 0 body \<and> length body \<le> 35
         \<and> y = height - 170 - 15 * of_nat (length body)
         \<and> (earlier \<noteq> [] \<longrightarrow> body \<noteq> [])
         \<and> map opText (concat (map (drop (length hdr)) earlier) @ body) = map cleanLine drawn)
     \<and> (\<forall>p \<in> set earlier. \<exists>b. p = hdr @ b \<and> bodyFrom 0 b \<and> length b = 35))"

text \<open>The body texts of all pages, in the order they are drawn.\<close>

definition bodyTexts :: "World \<Rightarrow> Document \<Rightarrow> jsstring \<Rightarrow> jsstring list" where
  "bodyTexts w document content' =
     map opText (concat (map (drop (length (drawHeader w document))) (composePages w document content')))"

subsection \<open>Runs\<close>

text \<open>
  The outcome and the calls of one run of the primary renderer, and of one run of the
  \<open>try\<close> block of the fallback renderer, each from an empty trace.
\<close>

definition primaryOutcome :: "World \<Rightarrow> jsstring \<Rightarrow> Document \<Rightarrow> ControlCopyInfo option \<Rightarrow> jsstring + jsstring" where
  "primaryOutcome w p d c = fst (convertWordToPDFWithPuppeteer w p d c start)"

definition primaryEvents :: "World \<Rightarrow> jsstring \<Rightarrow> Document \<Rightarrow> ControlCopyInfo option \<Rightarrow> event list" where
  "primaryEvents w p d c = trace (snd (convertWordToPDFWithPuppeteer w p d c start))"

definition primaryBrowser :: "World \<Rightarrow> jsstring \<Rightarrow> Document \<Rightarrow> ControlCopyInfo option \<Rightarrow> bool" where
  "primaryBrowser w p d c = browser (snd (convertWordToPDFWithPuppeteer w p d c start))"

definition fallbackOutcome :: "World \<Rightarrow> jsstring \<Rightarrow> Document \<Rightarrow> ControlCopyInfo option \<Rightarrow> jsstring + jsstring" where
  "fallbackOutcome w p d c = fst (alternativeTry w p d c start)"

definition fallbackEvents :: "World \<Rightarrow> jsstring \<Rightarrow> Document \<Rightarrow> ControlCopyInfo option \<Rightarrow> event list" where
  "fallbackEvents w p d c = trace (snd (alternativeTry w p d c start))"

text \<open>
  A computation is framed when its outcome, the calls it adds to the trace and the value it
  leaves in \<open>browser\<close> depend on nothing but the value of \<open>browser\<close> it starts with; it is
  stateless when they depend on nothing and \<open>browser\<close> is left alone.
\<close>

definition framed :: "'a io \<Rightarrow> bool" where
  "framed m = (\<exists>g. \<forall>s. m s = (case g (browser s) of
                                  (r, evs, b) \<Rightarrow> (r, s\<lparr>trace := trace s @ evs, browser := b\<rparr>)))"

definition stateless :: "'a io \<Rightarrow> bool" where
  "stateless m = (\<exists>r evs. \<forall>s. m s = (r, s\<lparr>trace := trace s @ evs\<rparr>))"

text \<open>
  Content extraction of the primary stage: the file is checked, read and converted to HTML.
  Content extraction of the fallback stage: the file is read and converted to raw text.
\<close>

definition primaryExtraction :: "World \<Rightarrow> jsstring \<Rightarrow> jsstring + jsstring option" where
  "primaryExtraction w wordFilePath =
     (case fs_access w wordFilePath of
        Some e \<Rightarrow> Inl e
      | None \<Rightarrow> (case fs_readFile w wordFilePath of
                   Inl e \<Rightarrow> Inl e
                 | Inr wordBuffer \<Rightarrow> mammoth_convertToHtml w wordBuffer))"

definition fallbackExtraction :: "World \<Rightarrow> jsstring \<Rightarrow> jsstring + jsstring option" where
  "fallbackExtraction w wordFilePath =
     (case fs_readFile w wordFilePath of
        Inl e \<Rightarrow> Inl e
      | Inr wordBuffer \<Rightarrow> mammoth_extractRawText w wordBuffer)"

text \<open>
  The calls that render: everything on the browser, on the PDF document, and writing the
  file.
\<close>

fun isRenderingCall :: "event \<Rightarrow> bool" where
  "isRenderingCall PuppeteerLaunch = True"
| "isRenderingCall BrowserNewPage = True"
| "isRenderingCall (PageSetContent html) = True"
| "isRenderingCall PageEvaluate = True"
| "isRenderingCall (PagePdf header footer) = True"
| "isRenderingCall BrowserClose = True"
| "isRenderingCall PDFDocumentCreate = True"
| "isRenderingCall (EmbedFont f) = True"
| "isRenderingCall (PdfDocSave pages) = True"
| "isRenderingCall (FsWriteFile path data) = True"
| "isRenderingCall ev = False"

text \<open>A path segment that normalisation leaves alone.\<close>

definition cleanSegment :: "jsstring \<Rightarrow> bool" where
  "cleanSegment seg = (seg \<noteq> [] \<and> seg \<noteq> str ''.'' \<and> seg \<noteq> str ''..'' \<and> 0x2F \<notin> set seg)"

subsection \<open>A host, a document and contents to evaluate on\<close>

text \<open>
  A host on which every outside call succeeds, with the default locale \<open>en-US\<close>
  (\<open>M/d/y\<close>) and \<open>toUpperCase\<close> on ASCII letters.
\<close>

definition asciiToUpperCase :: "jsstring \<Rightarrow> jsstring" where
  "asciiToUpperCase s = map (\<lambda>c. if 0x61 \<le> c \<and> c \<le> 0x7A then c - 0x20 else c) s"

definition toLocaleDateString_en_US :: "jsdate \<Rightarrow> jsstring" where
  "toLocaleDateString_en_US d = showNat (month d) @ str ''/'' @ showNat (day d) @ str ''/'' @ showNat (year d)"

definition hostWorld :: World where
  "hostWorld = \<lparr>
     cwd = str ''/app'',
     Date_now = 1700000000000,
     today = \<lparr>year = 2024, month = 1, day = 15\<rparr>,
     toLocaleDateString_default = toLocaleDateString_en_US,
     toUpperCase = asciiToUpperCase,
     fs_access = (\<lambda>p. None),
     fs_readFile = (\<lambda>p. Inr [0x50, 0x4B]),
     fs_writeFile = (\<lambda>p b. None),
     mammoth_convertToHtml = (\<lambda>b. Inr (Some (str ''<p>Scope</p>''))),
     mammoth_extractRawText = (\<lambda>b. Inr (Some (str ''Scope''))),
     puppeteer_launch = None,
     browser_newPage = None,
     page_setContent = (\<lambda>html. None),
     page_evaluate = None,
     page_pdf = (\<lambda>html header footer. Inr [0x25, 0x50, 0x44, 0x46]),
     browser_close = None,
     import_pdf_lib = None,
     PDFDocument_create = None,
     pdfDoc_embedFont = (\<lambda>f. None),
     page_drawText = (\<lambda>t. None),
     pdfDoc_save = (\<lambda>pages. Inr [0x25, 0x50, 0x44, 0x46])\<rparr>"

text \<open>A document with the number, revision and status of the specification's scenario A.\<close>

definition sopDocument :: Document where
  "sopDocument = \<lparr>
     docName = str ''Cleaning Procedure'',
     docNumber = str ''QC-SOP-001'',
     issueNo = None,
     revisionNo = Number 2,
     dateOfIssue = Some \<lparr>year = 2024, month = 3, day = 5\<rparr>,
     reviewDueDate = None,
     status = str ''approved'',
     reasonForRevision = None,
     headerInfo = None,
     footerInfo = None,
     content = None,
     departmentNames = None,
     preparerName = None,
     approverName = None,
     issuerName = None,
     creatorData = None,
     approverData = None,
     issuerData = None\<rparr>"

text \<open>A content of 36 lines, and a line of 96 letters.\<close>

definition manyLines :: jsstring where
  "manyLines = concat (replicate 36 (str ''step'' @ [0x0A]))"

definition longLine :: jsstring where
  "longLine = replicate 96 0x61"

text \<open>The uploaded file, and hosts on which one call fails.\<close>

definition wordFile :: jsstring where
  "wordFile = str ''/app/uploads/7_1700000000000_sop.docx''"

definition launchFails :: World where
  "launchFails = hostWorld\<lparr>puppeteer_launch := Some (str ''Failed to launch the browser process'')\<rparr>"

definition contentTimesOut :: World where
  "contentTimesOut = hostWorld\<lparr>page_setContent := (\<lambda>html. Some (str ''Navigation timeout of 30000 ms exceeded''))\<rparr>"

definition pdfFails :: World where
  "pdfFails = hostWorld\<lparr>page_pdf := (\<lambda>html header footer. Inl (str ''Protocol error (Page.printToPDF)''))\<rparr>"

definition bothFail :: World where
  "bothFail = launchFails\<lparr>pdfDoc_embedFont := (\<lambda>f. Some (str ''Could not embed font''))\<rparr>"

definition corruptFile :: World where
  "corruptFile = hostWorld\<lparr>
     mammoth_convertToHtml := (\<lambda>b. Inl (str ''Could not find the body element: are you sure this is a docx file?'')),
     mammoth_extractRawText := (\<lambda>b. Inl (str ''Could not find the body element: are you sure this is a docx file?''))\<rparr>"

text \<open>
  A document whose number climbs out of a directory, a recipient of a controlled copy, and
  a document with both dates.
\<close>

definition escapingDocument :: Document where
  "escapingDocument = sopDocument\<lparr>docNumber := str ''../QC-SOP-001''\<rparr>"

definition jSmith :: ControlCopyInfo where
  "jSmith = \<lparr>userId = str ''u-17'', userFullName = str ''J. Smith'', controlCopyNumber = 3,
             date = str ''2024-03-05''\<rparr>"

definition datedDocument :: Document where
  "datedDocument = sopDocument\<lparr>reviewDueDate := Some \<lparr>year = 2025, month = 3, day = 5\<rparr>\<rparr>"

section \<open>Pages of the fallback renderer\<close>

subsection \<open>The loop invariant\<close>

lemma bodyFrom_append:
  "bodyFrom k (xs @ ys) = (bodyFrom k xs \<and> bodyFrom (k + length xs) ys)"
proof (induction xs arbitrary: k)
  case Nil
  then show ?case by simp
next
  case (Cons op xs)
  then show ?case by (cases op) simp_all
qed

lemma below_threshold_iff:
  "(height - 170 - 15 * of_nat n < (150::rat)) = (35 \<le> n)"
proof (cases "35 \<le> n")
  case True
  then have "(35::rat) \<le> of_nat n"
    by (metis of_nat_le_iff of_nat_numeral)
  then show ?thesis using True unfolding height_def by simp
next
  case False
  then have "n \<le> 34" by simp
  then have "of_nat n \<le> (34::rat)"
    by (metis of_nat_le_iff of_nat_numeral)
  then show ?thesis using False unfolding height_def by simp
qed

lemma bodyFrom_above_threshold:
  "bodyFrom k ops \<Longrightarrow> k + length ops \<le> 35 \<Longrightarrow> op \<in> set ops \<Longrightarrow> 150 \<le> opY op"
proof (induction k ops rule: bodyFrom.induct)
  case (1 k)
  then show ?case by simp
next
  case (2 k t x y sz f ops)
  show ?case
  proof (cases "op = DrawText t x y sz f")
    case True
    from 2 have "\<not> 35 \<le> k" by simp
    then have "\<not> height - 170 - 15 * of_nat k < (150::rat)"
      by (simp add: below_threshold_iff)
    with 2 True show ?thesis by simp
  next
    case False
    with 2 show ?thesis by simp
  qed
next
  case (3 k x y wd ht ops)
  then show ?case by simp
qed

text \<open>
  One turn of the loop keeps \<open>layoutInv\<close>: the page in hand is the header and at most 35
  body lines, \<open>y\<close> is where the next line goes, every earlier page is full, and the texts
  drawn so far are those of the lines read so far.
\<close>

lemma layout_step:
  assumes "layoutInv hdr drawn (earlier, page, y)"
  shows "layoutInv hdr (drawn @ [line])
           (case (if y < 150 then (earlier @ [page], hdr, height - 170) else (earlier, page, y)) of
              (earlier1, page1, y1) \<Rightarrow>
                (earlier1, page1 @ [DrawText (cleanLine line) 50 y1 10 Helvetica], y1 - 15))"
proof -
  from assms obtain body where b: "page = hdr @ body" "bodyFrom 0 body" "length body \<le> 35"
     "y = height - 170 - 15 * of_nat (length body)" "earlier \<noteq> [] \<longrightarrow> body \<noteq> []"
     "map opText (concat (map (drop (length hdr)) earlier) @ body) = map cleanLine drawn"
    and e: "\<forall>p \<in> set earlier. \<exists>b. p = hdr @ b \<and> bodyFrom 0 b \<and> length b = 35"
    unfolding layoutInv_def by auto
  show ?thesis
  proof (cases "y < 150")
    case True
    with b(4) have "35 \<le> length body" by (simp add: below_threshold_iff)
    with b(3) have len: "length body = 35" by simp
    from True b e len show ?thesis
      unfolding layoutInv_def by simp
  next
    case False
    with b(4) have "\<not> 35 \<le> length body" by (simp add: below_threshold_iff)
    then have len: "length body \<le> 34" by simp
    from False b e len show ?thesis
      unfolding layoutInv_def by (simp add: bodyFrom_append algebra_simps)
  qed
qed

lemma drawLines_inv:
  "layoutInv hdr drawn st \<Longrightarrow> layoutInv hdr (drawn @ lines) (drawLines hdr lines st)"
proof (induction lines arbitrary: drawn st)
  case Nil
  then show ?case by simp
next
  case (Cons line lines)
  obtain earlier page y where st: "st = (earlier, page, y)" by (cases st) auto
  from Cons.prems have "layoutInv hdr (drawn @ [line])
           (case (if y < 150 then (earlier @ [page], hdr, height - 170) else (earlier, page, y)) of
              (earlier1, page1, y1) \<Rightarrow>
                (earlier1, page1 @ [DrawText (cleanLine line) 50 y1 10 Helvetica], y1 - 15))"
    unfolding st by (rule layout_step)
  from Cons.IH [OF this] show ?case
    unfolding st by (simp add: cleanLine_def split: if_splits)
qed

text \<open>What the pages of the fallback renderer look like, for any header and content.\<close>

lemma composePages_shape:
  "\<exists>earlier body.
     composePages w document content' = earlier @ [drawHeader w document @ body]
     \<and> bodyFrom 0 body \<and> length body \<le> 35 \<and> (earlier \<noteq> [] \<longrightarrow> body \<noteq> [])
     \<and> (\<forall>p \<in> set earlier. \<exists>b. p = drawHeader w document @ b \<and> bodyFrom 0 b \<and> length b = 35)
     \<and> map opText (concat (map (drop (length (drawHeader w document))) earlier) @ body)
         = map cleanLine (contentLines content')"
proof -
  let ?hdr = "drawHeader w document"
  have "layoutInv ?hdr [] ([], ?hdr, height - 170)"
    unfolding layoutInv_def by simp
  from drawLines_inv [OF this, of "contentLines content'"]
  have inv: "layoutInv ?hdr (contentLines content')
               (drawLines ?hdr (contentLines content') ([], ?hdr, height - 170))"
    by simp
  obtain earlier page y where
    st: "drawLines ?hdr (contentLines content') ([], ?hdr, height - 170) = (earlier, page, y)"
    by (cases "drawLines ?hdr (contentLines content') ([], ?hdr, height - 170)") auto
  from inv show ?thesis
    unfolding st layoutInv_def composePages_def by auto
qed

lemma length_drawHeader: "length (drawHeader w document) = 6"
  by (simp add: drawHeader_def Let_def)

subsection \<open>Splitting into lines\<close>

lemma split_char_append:
  "sep \<notin> set l \<Longrightarrow> split_char sep (l @ sep # rest) = l # split_char sep rest"
  by (induction l) auto

lemma split_char_no_sep:
  "sep \<notin> set l \<Longrightarrow> split_char sep l = [l]"
  by (induction l) auto

lemma contentLines_line:
  "0x0A \<notin> set l \<Longrightarrow>
   contentLines (l @ 0x0A # rest) = (if trim l = [] then [] else [l]) @ contentLines rest"
  by (simp add: contentLines_def split_char_append)

lemma contentLines_replicate:
  "0x0A \<notin> set l \<Longrightarrow> trim l \<noteq> [] \<Longrightarrow>
   contentLines (concat (replicate n (l @ [0x0A]))) = replicate n l"
proof (induction n)
  case 0
  then show ?case by (simp add: contentLines_def trim_def)
next
  case (Suc n)
  then show ?case using contentLines_line [of l "concat (replicate n (l @ [0x0A]))"] by simp
qed

lemma manyLines_line: "0x0A \<notin> set (str ''step'') \<and> trim (str ''step'') \<noteq> []"
  by (simp add: str_def trim_def isWhiteSpace_def)

lemma contentLines_manyLines: "contentLines manyLines = replicate 36 (str ''step'')"
  unfolding manyLines_def using contentLines_replicate manyLines_line by blast

subsection \<open>The number of pages\<close>

lemma page_count_arith:
  "1 \<le> b \<Longrightarrow> b \<le> 35 \<Longrightarrow> (35 * e + b + 34) div 35 = Suc (e::nat)"
  by presburger

lemma length_composePages:
  "length (composePages w document content') =
     (if length (contentLines content') = 0 then 1 else (length (contentLines content') + 34) div 35)"
proof -
  let ?hdr = "drawHeader w document"
  from composePages_shape [of w document content'] obtain earlier body where
    s: "composePages w document content' = earlier @ [?hdr @ body]"
       "length body \<le> 35" "earlier \<noteq> [] \<longrightarrow> body \<noteq> []"
       "\<forall>p \<in> set earlier. \<exists>b. p = ?hdr @ b \<and> bodyFrom 0 b \<and> length b = 35"
       "map opText (concat (map (drop (length ?hdr)) earlier) @ body)
          = map cleanLine (contentLines content')"
    by blast
  from s(4) have "length (concat (map (drop (length ?hdr)) earlier)) = 35 * length earlier"
  proof (induction earlier)
    case Nil
    then show ?case by simp
  next
    case (Cons p ps)
    then show ?case by auto
  qed
  moreover from s(5) have "length (contentLines content')
      = length (concat (map (drop (length ?hdr)) earlier)) + length body"
    by (metis length_append length_map)
  ultimately have n: "length (contentLines content') = 35 * length earlier + length body"
    by simp
  show ?thesis
  proof (cases "earlier = []")
    case True
    show ?thesis
    proof (cases "body = []")
      case True
      with \<open>earlier = []\<close> s(1) n show ?thesis by simp
    next
      case False
      then have "1 \<le> length body" by (cases body) auto
      from page_count_arith [OF this s(2), of 0] \<open>earlier = []\<close> s(1) n False
      show ?thesis by simp
    qed
  next
    case False
    with s(3) have "1 \<le> length body" by (cases body) auto
    from page_count_arith [OF this s(2), of "length earlier"] s(1) n False
    show ?thesis by simp
  qed
qed

subsection \<open>Body lines (claim C8)\<close>

lemma bodyTexts_eq:
  "bodyTexts w document content' = map cleanLine (contentLines content')"
proof -
  from composePages_shape [of w document content'] obtain earlier body where
    s: "composePages w document content' = earlier @ [drawHeader w document @ body]"
       "map opText (concat (map (drop (length (drawHeader w document))) earlier) @ body)
          = map cleanLine (contentLines content')"
    by blast
  then show ?thesis unfolding bodyTexts_def by simp
qed

lemma cleanLine_printable:
  "length (cleanLine l) \<le> 95 \<and> (\<forall>c \<in> set (cleanLine l). 0x20 \<le> c \<and> c \<le> 0x7E)"
  by (auto simp: cleanLine_def replace_non_printable_def substring_def)

text \<open>
  Claim C8, as amended. For every line of the extracted text that is not blank, the
  fallback renderer draws one text: the first 95 code units of the line, with every code
  unit outside the printable ASCII range \<open>0x20\<close> to \<open>0x7E\<close> replaced by a space. So a
  drawn body text has at most 95 code units, all of them printable ASCII. The rest of a
  longer line is not drawn: the line is cut, not wrapped.
\<close>

theorem fallback_body_lines_truncated_and_printable:
  "bodyTexts w document content'
     = map (\<lambda>line. replace_non_printable (substring line 0 95)) (contentLines content')
   \<and> (\<forall>t \<in> set (bodyTexts w document content').
         length t \<le> 95 \<and> (\<forall>c \<in> set t. 0x20 \<le> c \<and> c \<le> 0x7E))"
proof -
  have "bodyTexts w document content'
     = map (\<lambda>line. replace_non_printable (substring line 0 95)) (contentLines content')"
    using bodyTexts_eq [of w document content'] by (simp add: cleanLine_def [abs_def])
  moreover have "\<forall>t \<in> set (bodyTexts w document content').
         length t \<le> 95 \<and> (\<forall>c \<in> set t. 0x20 \<le> c \<and> c \<le> 0x7E)"
    using cleanLine_printable by (auto simp: bodyTexts_eq)
  ultimately show ?thesis by blast
qed

lemma trim_nonblank:
  assumes "c \<in> set l" "\<not> isWhiteSpace c"
  shows "trim l \<noteq> []"
proof -
  from assms have "dropWhile isWhiteSpace l \<noteq> []"
    by (auto simp: dropWhile_eq_Nil_conv)
  then obtain d where d: "d \<in> set (dropWhile isWhiteSpace l)" "\<not> isWhiteSpace d"
    by (metis hd_dropWhile hd_in_set)
  then have "dropWhile isWhiteSpace (rev (dropWhile isWhiteSpace l)) \<noteq> []"
    by (auto simp: dropWhile_eq_Nil_conv)
  then show ?thesis by (simp add: trim_def)
qed

lemma contentLines_longLine: "contentLines longLine = [longLine]"
proof -
  have "0x0A \<notin> set longLine" by (simp add: longLine_def)
  moreover have "trim longLine \<noteq> []"
    by (rule trim_nonblank [of "0x61"]) (simp_all add: longLine_def isWhiteSpace_def)
  ultimately show ?thesis by (simp add: contentLines_def split_char_no_sep)
qed

lemma cleanLine_longLine: "cleanLine longLine = replicate 95 0x61"
  by (simp add: cleanLine_def longLine_def substring_def replace_non_printable_def)

text \<open>Witness for C8: a line of 96 letters is drawn as its first 95.\<close>

theorem fallback_body_lines_truncated_and_printable_witness:
  "bodyTexts hostWorld sopDocument longLine = [replicate 95 0x61]
   \<and> length (replicate 95 (0x61 :: jschar)) \<le> 95"
  using fallback_body_lines_truncated_and_printable [of hostWorld sopDocument longLine]
  by (simp add: contentLines_longLine cleanLine_longLine [unfolded cleanLine_def])

text \<open>
  Counterexample to C8 as stated: were a line wrapped at a fixed width, the texts drawn
  for it would together be the whole (cleaned) line. A line of 96 letters is one drawn line,
  and the texts drawn for it are not the line: its last letter is nowhere on the page.
\<close>

theorem fallback_line_not_wrapped_counterexample:
  "contentLines longLine = [longLine]
   \<and> concat (bodyTexts hostWorld sopDocument longLine) \<noteq> replace_non_printable longLine"
proof -
  have "bodyTexts hostWorld sopDocument longLine = [replicate 95 0x61]"
    by (simp add: bodyTexts_eq contentLines_longLine cleanLine_longLine)
  moreover have "length (replace_non_printable longLine) = 96"
    by (simp add: replace_non_printable_def longLine_def)
  ultimately have "length (concat (bodyTexts hostWorld sopDocument longLine))
                     \<noteq> length (replace_non_printable longLine)"
    by simp
  then show ?thesis using contentLines_longLine by auto
qed

subsection \<open>Page breaks and headers (claims C9 and C10)\<close>

lemma composePages_pages:
  assumes "p \<in> set (composePages w document content')"
  shows "\<exists>body. p = drawHeader w document @ body \<and> bodyFrom 0 body \<and> length body \<le> 35"
proof -
  from composePages_shape [of w document content'] obtain earlier body where
    s: "composePages w document content' = earlier @ [drawHeader w document @ body]"
       "bodyFrom 0 body" "length body \<le> 35"
       "\<forall>p \<in> set earlier. \<exists>b. p = drawHeader w document @ b \<and> bodyFrom 0 b \<and> length b = 35"
    by blast
  from assms s(1) have "p \<in> set earlier \<or> p = drawHeader w document @ body" by auto
  then show ?thesis
  proof
    assume "p \<in> set earlier"
    with s(4) show ?thesis by fastforce
  next
    assume "p = drawHeader w document @ body"
    with s(2,3) show ?thesis by blast
  qed
qed

lemma composePages_full_pages:
  assumes "p \<in> set (butlast (composePages w document content'))"
  shows "length p = length (drawHeader w document) + 35"
proof -
  from composePages_shape [of w document content'] obtain earlier body where
    s: "composePages w document content' = earlier @ [drawHeader w document @ body]"
       "\<forall>p \<in> set earlier. \<exists>b. p = drawHeader w document @ b \<and> bodyFrom 0 b \<and> length b = 35"
    by blast
  from assms s(1) have "p \<in> set earlier" by (simp add: butlast_append)
  with s(2) show ?thesis by fastforce
qed

lemma composePages_later_pages:
  assumes "p \<in> set (tl (composePages w document content'))"
  shows "length (drawHeader w document) < length p"
proof -
  from composePages_shape [of w document content'] obtain earlier body where
    s: "composePages w document content' = earlier @ [drawHeader w document @ body]"
       "earlier \<noteq> [] \<longrightarrow> body \<noteq> []"
       "\<forall>p \<in> set earlier. \<exists>b. p = drawHeader w document @ b \<and> bodyFrom 0 b \<and> length b = 35"
    by blast
  show ?thesis
  proof (cases "earlier = []")
    case True
    with assms s(1) show ?thesis by simp
  next
    case False
    with assms s(1) have "p \<in> set earlier \<or> p = drawHeader w document @ body"
      by (auto dest: list.set_sel(2) [rotated])
    then show ?thesis
    proof
      assume "p \<in> set earlier"
      with s(3) show ?thesis by fastforce
    next
      assume "p = drawHeader w document @ body"
      with False s(2) show ?thesis by simp
    qed
  qed
qed

text \<open>
  Claim C9. In the fallback renderer, for every content, a new page is started exactly
  when the remaining vertical space falls below the threshold of 150 points, and every page
  begins with the header block, the document name and number banner first, before any body
  text. In detail: the number of pages is 1 for no lines and the number of lines divided by
  35, rounded up, otherwise; every page is the header followed by at most 35 body lines,
  the first at \<open>height - 170\<close> and each 15 points below the one before, none of them below
  150; every page but the last has exactly 35 body lines, so that the next line would fall
  below 150; and every page after the first has a body line.
\<close>

theorem fallback_page_breaks_and_headers:
  "length (composePages w document content') =
     (if length (contentLines content') = 0 then 1
      else (length (contentLines content') + 34) div 35)
   \<and> (\<forall>p \<in> set (composePages w document content').
        \<exists>body. p = drawHeader w document @ body \<and> bodyFrom 0 body \<and> length body \<le> 35
               \<and> (\<forall>op \<in> set body. 150 \<le> opY op))
   \<and> (\<forall>p \<in> set (butlast (composePages w document content')).
        length p = length (drawHeader w document) + 35)
   \<and> (\<forall>p \<in> set (tl (composePages w document content')).
        length (drawHeader w document) < length p)
   \<and> hd (drawHeader w document) =
        DrawText (str ''Document Name: '' @ substring (docName document) 0 60
                  @ str '' | Document Number: '' @ substring (docNumber document) 0 30)
          45 (height - 30) 9 HelveticaBold"
proof -
  have "\<forall>p \<in> set (composePages w document content').
        \<exists>body. p = drawHeader w document @ body \<and> bodyFrom 0 body \<and> length body \<le> 35
               \<and> (\<forall>op \<in> set body. 150 \<le> opY op)"
  proof
    fix p assume "p \<in> set (composePages w document content')"
    from composePages_pages [OF this] obtain body where
      b: "p = drawHeader w document @ body" "bodyFrom 0 body" "length body \<le> 35" by blast
    then have "\<forall>op \<in> set body. 150 \<le> opY op"
      using bodyFrom_above_threshold [of 0 body] by simp
    with b show "\<exists>body. p = drawHeader w document @ body \<and> bodyFrom 0 body \<and> length body \<le> 35
               \<and> (\<forall>op \<in> set body. 150 \<le> opY op)" by blast
  qed
  moreover have "hd (drawHeader w document) =
        DrawText (str ''Document Name: '' @ substring (docName document) 0 60
                  @ str '' | Document Number: '' @ substring (docNumber document) 0 30)
          45 (height - 30) 9 HelveticaBold"
    by (simp add: drawHeader_def Let_def)
  ultimately show ?thesis
    using length_composePages composePages_full_pages composePages_later_pages by blast
qed

lemma manyLines_two_pages: "length (composePages w document manyLines) = 2"
  by (simp add: length_composePages contentLines_manyLines)

text \<open>Witness for C9: 36 lines give two pages, the first one full, each with the header.\<close>

theorem fallback_page_breaks_and_headers_witness:
  "length (composePages hostWorld sopDocument manyLines) = 2
   \<and> take 6 (composePages hostWorld sopDocument manyLines ! 0) = drawHeader hostWorld sopDocument
   \<and> take 6 (composePages hostWorld sopDocument manyLines ! 1) = drawHeader hostWorld sopDocument
   \<and> length (composePages hostWorld sopDocument manyLines ! 0) = 41
   \<and> 6 < length (composePages hostWorld sopDocument manyLines ! 1)"
proof -
  let ?pages = "composePages hostWorld sopDocument manyLines"
  note inst = fallback_page_breaks_and_headers [of hostWorld sopDocument manyLines]
  have len: "length ?pages = 2" using inst by (simp add: contentLines_manyLines)
  then obtain p0 p1 where ps: "?pages = [p0, p1]"
    by (metis (no_types, lifting) One_nat_def Suc_1 length_0_conv length_Suc_conv)
  from inst ps show ?thesis by (auto simp: length_drawHeader)
qed

text \<open>
  Claim C10. Every page of a fallback-rendered PDF has, as the sixth call of its header
  block, the literal text \<open>Page: 1 of 1\<close>, whatever the number of pages and whichever
  page it is.
\<close>

theorem fallback_page_indicator_literal:
  "\<forall>p \<in> set (composePages w document content').
     p ! 5 = DrawText (str ''Page: 1 of 1'') 45 (height - 115) 9 Helvetica"
proof
  fix p assume "p \<in> set (composePages w document content')"
  from composePages_pages [OF this] obtain body where "p = drawHeader w document @ body"
    by blast
  then show "p ! 5 = DrawText (str ''Page: 1 of 1'') 45 (height - 115) 9 Helvetica"
    by (simp add: drawHeader_def Let_def nth_append)
qed

text \<open>Witness for C10: both pages of a two-page document say \<open>Page: 1 of 1\<close>.\<close>

theorem fallback_page_indicator_literal_witness:
  "length (composePages hostWorld sopDocument manyLines) = 2
   \<and> composePages hostWorld sopDocument manyLines ! 0 ! 5
       = DrawText (str ''Page: 1 of 1'') 45 (height - 115) 9 Helvetica
   \<and> composePages hostWorld sopDocument manyLines ! 1 ! 5
       = DrawText (str ''Page: 1 of 1'') 45 (height - 115) 9 Helvetica"
proof -
  let ?pages = "composePages hostWorld sopDocument manyLines"
  have len: "length ?pages = 2" by (rule manyLines_two_pages)
  then have "?pages ! 0 \<in> set ?pages" "?pages ! 1 \<in> set ?pages" by simp_all
  with fallback_page_indicator_literal [of hostWorld sopDocument manyLines] len
  show ?thesis by blast
qed

section \<open>Runs of the renderers and of the coordinator\<close>

subsection \<open>Steps of a run\<close>

lemma io_bind_call:
  "io_bind (call ev out) k s =
     (case out of Inl e \<Rightarrow> (Inl e, s\<lparr>trace := trace s @ [ev]\<rparr>)
                | Inr x \<Rightarrow> k x (s\<lparr>trace := trace s @ [ev]\<rparr>))"
  by (simp add: io_bind_def call_def split: sum.splits)

lemma rejects_eq:
  "(rejects out = Inl e) = (out = Some e)"
  "(rejects out = Inr u) = (out = None)"
  "rejects (Some e) = Inl e"
  "rejects None = Inr ()"
  by (simp_all add: rejects_def split: option.splits)

lemma io_bind_set_browser:
  "io_bind (set_browser b) k s = k () (s\<lparr>browser := b\<rparr>)"
  by (simp add: io_bind_def set_browser_def)

lemma io_bind_rejects:
  "io_bind (\<lambda>s. (rejects out, s)) k s = (case out of Some e \<Rightarrow> (Inl e, s) | None \<Rightarrow> k () s)"
  by (simp add: io_bind_def rejects_def split: option.splits)

lemmas io_steps = rejects_eq io_bind_call io_bind_set_browser io_bind_rejects
  io_return_def Let_def

subsection \<open>Runs do not depend on the trace so far\<close>

lemma framedI:
  "(\<And>s. m s = (case g (browser s) of (r, evs, b) \<Rightarrow> (r, s\<lparr>trace := trace s @ evs, browser := b\<rparr>)))
   \<Longrightarrow> framed m"
  unfolding framed_def by blast

lemma framed_return: "framed (io_return x)"
  by (rule framedI [where g = "\<lambda>b. (Inr x, [], b)"]) (simp add: io_return_def)

lemma framed_call: "framed (call ev out)"
  by (rule framedI [where g = "\<lambda>b. (out, [ev], b)"]) (simp add: call_def)

lemma framed_set_browser: "framed (set_browser v)"
  by (rule framedI [where g = "\<lambda>b. (Inr (), [], v)"]) (simp add: set_browser_def)

lemma framed_rejects: "framed (\<lambda>s. (rejects out, s))"
  by (rule framedI [where g = "\<lambda>b. (rejects out, [], b)"]) simp

lemma framed_throw: "framed (\<lambda>s. (Inl e, s))"
  by (rule framedI [where g = "\<lambda>b. (Inl e, [], b)"]) simp

lemma framed_bind:
  assumes "framed m" and "\<And>x. framed (f x)"
  shows "framed (io_bind m f)"
proof -
  from assms(1) obtain g where g: "\<And>s. m s = (case g (browser s) of
      (r, evs, b) \<Rightarrow> (r, s\<lparr>trace := trace s @ evs, browser := b\<rparr>))"
    unfolding framed_def by blast
  from assms(2) have "\<forall>x. \<exists>h. \<forall>s. f x s = (case h (browser s) of
      (r, evs, b) \<Rightarrow> (r, s\<lparr>trace := trace s @ evs, browser := b\<rparr>))"
    unfolding framed_def by blast
  then obtain h where h: "\<And>x s. f x s = (case h x (browser s) of
      (r, evs, b) \<Rightarrow> (r, s\<lparr>trace := trace s @ evs, browser := b\<rparr>))"
    by metis
  show ?thesis
    by (rule framedI [where g = "\<lambda>b0. case g b0 of
            (Inl e, evs, b) \<Rightarrow> (Inl e, evs, b)
          | (Inr x, evs, b) \<Rightarrow> (case h x b of (r, evs', b') \<Rightarrow> (r, evs @ evs', b'))"])
       (simp add: io_bind_def g h split: prod.splits sum.splits)
qed

lemma framed_try_catch:
  assumes "framed m" and "\<And>e. framed (f e)"
  shows "framed (try_catch m f)"
proof -
  from assms(1) obtain g where g: "\<And>s. m s = (case g (browser s) of
      (r, evs, b) \<Rightarrow> (r, s\<lparr>trace := trace s @ evs, browser := b\<rparr>))"
    unfolding framed_def by blast
  from assms(2) have "\<forall>x. \<exists>h. \<forall>s. f x s = (case h (browser s) of
      (r, evs, b) \<Rightarrow> (r, s\<lparr>trace := trace s @ evs, browser := b\<rparr>))"
    unfolding framed_def by blast
  then obtain h where h: "\<And>x s. f x s = (case h x (browser s) of
      (r, evs, b) \<Rightarrow> (r, s\<lparr>trace := trace s @ evs, browser := b\<rparr>))"
    by metis
  show ?thesis
    by (rule framedI [where g = "\<lambda>b0. case g b0 of
            (Inr x, evs, b) \<Rightarrow> (Inr x, evs, b)
          | (Inl e, evs, b) \<Rightarrow> (case h e b of (r, evs', b') \<Rightarrow> (r, evs @ evs', b'))"])
       (simp add: try_catch_def g h split: prod.splits sum.splits)
qed

lemma framed_try_finally:
  assumes "framed m" and "framed fin"
  shows "framed (try_finally m fin)"
proof -
  from assms(1) obtain g where g: "\<And>s. m s = (case g (browser s) of
      (r, evs, b) \<Rightarrow> (r, s\<lparr>trace := trace s @ evs, browser := b\<rparr>))"
    unfolding framed_def by blast
  from assms(2) obtain h where h: "\<And>s. fin s = (case h (browser s) of
      (r, evs, b) \<Rightarrow> (r, s\<lparr>trace := trace s @ evs, browser := b\<rparr>))"
    unfolding framed_def by blast
  show ?thesis
    by (rule framedI [where g = "\<lambda>b0. case g b0 of
            (r, evs, b) \<Rightarrow> (case h b of (Inl e, evs', b') \<Rightarrow> (Inl e, evs @ evs', b')
                                      | (Inr u, evs', b') \<Rightarrow> (r, evs @ evs', b'))"])
       (simp add: try_finally_def g h split: prod.splits sum.splits)
qed

lemma framed_puppeteerFinally: "framed (puppeteerFinally w)"
  by (rule framedI [where g = "\<lambda>b. if b then (rejects (browser_close w), [BrowserClose], b)
                                      else (Inr (), [], b)"])
     (simp add: puppeteerFinally_def call_def io_return_def)

lemmas framed_intros = framed_bind framed_try_catch framed_try_finally framed_return framed_call
  framed_set_browser framed_rejects framed_throw framed_puppeteerFinally

lemma framed_puppeteerTry: "framed (puppeteerTry w p d c)"
  unfolding puppeteerTry_def Let_def by (intro framed_intros)

lemma framed_primary: "framed (convertWordToPDFWithPuppeteer w p d c)"
  unfolding convertWordToPDFWithPuppeteer_def by (intro framed_intros framed_puppeteerTry)

lemma framed_alternativeTry: "framed (alternativeTry w p d c)"
  unfolding alternativeTry_def Let_def by (intro framed_intros)

text \<open>A framed computation run from any state.\<close>

lemma framed_run:
  assumes "framed m"
  shows "m s = (fst (m (start\<lparr>browser := browser s\<rparr>)),
                s\<lparr>trace := trace s @ trace (snd (m (start\<lparr>browser := browser s\<rparr>))),
                  browser := browser (snd (m (start\<lparr>browser := browser s\<rparr>)))\<rparr>)"
proof -
  from assms obtain g where g: "\<And>s. m s = (case g (browser s) of
      (r, evs, b) \<Rightarrow> (r, s\<lparr>trace := trace s @ evs, browser := b\<rparr>))"
    unfolding framed_def by blast
  obtain r evs b where v: "g (browser s) = (r, evs, b)"
    by (cases "g (browser s)") auto
  have "m s = (r, s\<lparr>trace := trace s @ evs, browser := b\<rparr>)"
    using g [of s] v by simp
  moreover have "m (start\<lparr>browser := browser s\<rparr>) = (r, \<lparr>trace = evs, browser = b\<rparr>)"
    using g [of "start\<lparr>browser := browser s\<rparr>"] v by (simp add: start_def)
  ultimately show ?thesis by simp
qed

subsection \<open>The primary renderer\<close>

lemma puppeteerTry_events:
  "BrowserClose \<notin> set (trace (snd (puppeteerTry w p d c start)))
   \<and> distinct (trace (snd (puppeteerTry w p d c start)))
   \<and> (\<exists>evs. trace (snd (puppeteerTry w p d c start)) = FsAccess p # evs)"
  unfolding puppeteerTry_def start_def
  by (simp add: io_steps split: sum.splits option.splits)

lemma puppeteerTry_browser:
  "browser (snd (puppeteerTry w p d c start))
     = (PuppeteerLaunch \<in> set (trace (snd (puppeteerTry w p d c start))) \<and> puppeteer_launch w = None)"
  unfolding puppeteerTry_def start_def
  by (simp add: io_steps split: sum.splits option.splits)

lemma start_browser_False: "start\<lparr>browser := False\<rparr> = start"
  by (simp add: start_def)

text \<open>The primary renderer resets \<open>browser\<close> first, so its run does not depend on the state.\<close>

lemma primary_run:
  "convertWordToPDFWithPuppeteer w p d c s =
     (primaryOutcome w p d c,
      s\<lparr>trace := trace s @ primaryEvents w p d c,
        browser := primaryBrowser w p d c\<rparr>)"
proof -
  have "convertWordToPDFWithPuppeteer w p d c (start\<lparr>browser := browser s\<rparr>)
          = convertWordToPDFWithPuppeteer w p d c start"
    by (simp add: convertWordToPDFWithPuppeteer_def io_bind_set_browser start_def)
  with framed_run [OF framed_primary, of w p d c s] show ?thesis
    by (simp add: primaryOutcome_def primaryEvents_def primaryBrowser_def)
qed

lemma primary_from_try:
  "primaryEvents w p d c =
     trace (snd (puppeteerTry w p d c start))
     @ (if browser (snd (puppeteerTry w p d c start)) then [BrowserClose] else [])"
  "primaryOutcome w p d c =
     (if browser (snd (puppeteerTry w p d c start))
      then (case browser_close w of Some e \<Rightarrow> Inl e | None \<Rightarrow> fst (puppeteerTry w p d c start))
      else fst (puppeteerTry w p d c start))"
  by (cases "puppeteerTry w p d c start";
      simp add: primaryEvents_def primaryOutcome_def convertWordToPDFWithPuppeteer_def
        io_bind_set_browser start_browser_False try_finally_def puppeteerFinally_def call_def
        io_return_def rejects_def split: option.splits)+

lemma primaryEvents_distinct: "distinct (primaryEvents w p d c)"
  using puppeteerTry_events [of w p d c] by (simp add: primary_from_try)

lemma primaryEvents_first: "\<exists>evs. primaryEvents w p d c = FsAccess p # evs"
  using puppeteerTry_events [of w p d c] by (auto simp: primary_from_try)

subsection \<open>The fallback renderer\<close>

lemma statelessI: "(\<And>s. m s = (r, s\<lparr>trace := trace s @ evs\<rparr>)) \<Longrightarrow> stateless m"
  unfolding stateless_def by blast

lemma stateless_return: "stateless (io_return x)"
  by (rule statelessI [where r = "Inr x" and evs = "[]"]) (simp add: io_return_def)

lemma stateless_call: "stateless (call ev out)"
  by (rule statelessI [where r = out and evs = "[ev]"]) (simp add: call_def)

lemma stateless_rejects: "stateless (\<lambda>s. (rejects out, s))"
  by (rule statelessI [where r = "rejects out" and evs = "[]"]) simp

lemma stateless_bind:
  assumes "stateless m" and "\<And>x. stateless (f x)"
  shows "stateless (io_bind m f)"
proof -
  from assms(1) obtain r evs where m: "\<And>s. m s = (r, s\<lparr>trace := trace s @ evs\<rparr>)"
    unfolding stateless_def by blast
  show ?thesis
  proof (cases r)
    case (Inl e)
    show ?thesis
      by (rule statelessI [where r = "Inl e" and evs = evs]) (simp add: io_bind_def m Inl)
  next
    case (Inr x)
    from assms(2) [of x] obtain r' evs' where f: "\<And>s. f x s = (r', s\<lparr>trace := trace s @ evs'\<rparr>)"
      unfolding stateless_def by blast
    show ?thesis
      by (rule statelessI [where r = r' and evs = "evs @ evs'"]) (simp add: io_bind_def m Inr f)
  qed
qed

lemma stateless_run:
  assumes "stateless m"
  shows "m s = (fst (m start), s\<lparr>trace := trace s @ trace (snd (m start))\<rparr>)"
proof -
  from assms obtain r evs where m: "\<And>s. m s = (r, s\<lparr>trace := trace s @ evs\<rparr>)"
    unfolding stateless_def by blast
  have "m start = (r, \<lparr>trace = evs, browser = False\<rparr>)"
    using m [of start] by (simp add: start_def)
  then show ?thesis using m [of s] by simp
qed

lemma alternativeTry_run:
  "alternativeTry w p d c s =
     (fallbackOutcome w p d c, s\<lparr>trace := trace s @ fallbackEvents w p d c\<rparr>)"
proof -
  have "stateless (alternativeTry w p d c)"
    unfolding alternativeTry_def Let_def
    by (intro stateless_bind stateless_call stateless_return stateless_rejects)
  from stateless_run [OF this, of s] show ?thesis
    by (simp add: fallbackOutcome_def fallbackEvents_def)
qed

lemma fallbackEvents_props:
  "distinct (fallbackEvents w p d c)
   \<and> (\<exists>evs. fallbackEvents w p d c = ImportPdfLib # evs)
   \<and> FsAccess p \<notin> set (fallbackEvents w p d c)
   \<and> PuppeteerLaunch \<notin> set (fallbackEvents w p d c)"
  unfolding alternativeTry_def start_def fallbackEvents_def
  by (simp add: io_steps split: sum.splits option.splits)

lemma primaryEvents_no_import:
  "ImportPdfLib \<notin> set (primaryEvents w p d c)"
proof -
  have "ImportPdfLib \<notin> set (trace (snd (puppeteerTry w p d c start)))"
    unfolding puppeteerTry_def start_def
    by (simp add: io_steps split: sum.splits option.splits)
  then show ?thesis by (simp add: primary_from_try)
qed

subsection \<open>The coordinator\<close>

lemma trace_start: "trace start = []"
  by (simp add: start_def)

text \<open>The run of the coordinator, in terms of one run of each renderer.\<close>

lemma coordinator_run:
  "fst (convertWordToPDF w p d c start) =
     (case primaryOutcome w p d c of
        Inr pdfPath \<Rightarrow> Inr pdfPath
      | Inl err \<Rightarrow>
          (case fallbackOutcome w p d c of
             Inr pdfPath \<Rightarrow> Inr pdfPath
           | Inl fallbackErr \<Rightarrow> Inl (str ''PDF generation failed completely: '' @ fallbackErr)))"
  "trace (snd (convertWordToPDF w p d c start)) =
     ConsoleLog (str ''[PDF] Attempting Puppeteer PDF for: '' @ docNumber d)
     # primaryEvents w p d c
     @ (case primaryOutcome w p d c of
          Inr pdfPath \<Rightarrow> []
        | Inl err \<Rightarrow>
            ConsoleError (str ''[PDF] Puppeteer failed: '' @ err
                          @ str ''. Switching to Professional Fallback...'')
            # fallbackEvents w p d c
            @ (case fallbackOutcome w p d c of
                 Inr pdfPath \<Rightarrow> []
               | Inl fallbackErr \<Rightarrow>
                   [ConsoleError (str ''[PDF] Fallback engine also failed: '' @ fallbackErr)]))"
  by (simp_all add: convertWordToPDF_def convertWordToPDFAlternative_def try_catch_def
        io_bind_call primary_run alternativeTry_run trace_start
        split: sum.splits)

subsection \<open>Failing extraction\<close>

lemma primaryExtraction_InlE:
  assumes "primaryExtraction w p = Inl e"
  obtains "fs_access w p = Some e"
  | "fs_access w p = None" "fs_readFile w p = Inl e"
  | b where "fs_access w p = None" "fs_readFile w p = Inr b" "mammoth_convertToHtml w b = Inl e"
  using assms by (auto simp: primaryExtraction_def split: option.splits sum.splits)

lemma primaryExtraction_InrE:
  assumes "primaryExtraction w p = Inr r"
  obtains b where "fs_access w p = None" "fs_readFile w p = Inr b" "mammoth_convertToHtml w b = Inr r"
  using assms by (auto simp: primaryExtraction_def split: option.splits sum.splits)

lemma fallbackExtraction_InlE:
  assumes "fallbackExtraction w p = Inl e"
  obtains "fs_readFile w p = Inl e"
  | b where "fs_readFile w p = Inr b" "mammoth_extractRawText w b = Inl e"
  using assms by (auto simp: fallbackExtraction_def split: sum.splits)

lemma puppeteerTry_extraction_fails:
  assumes "primaryExtraction w p = Inl e"
  shows "fst (puppeteerTry w p d c start) = Inl e
      \<and> \<not> browser (snd (puppeteerTry w p d c start))
      \<and> (\<forall>ev \<in> set (trace (snd (puppeteerTry w p d c start))). \<not> isRenderingCall ev)"
  using assms
proof (cases rule: primaryExtraction_InlE)
  case 1
  then show ?thesis by (simp add: puppeteerTry_def start_def io_steps)
next
  case 2
  then show ?thesis by (simp add: puppeteerTry_def start_def io_steps)
next
  case (3 b)
  then show ?thesis by (simp add: puppeteerTry_def start_def io_steps)
qed

lemma primary_extraction_fails:
  assumes "primaryExtraction w p = Inl e"
  shows "primaryOutcome w p d c = Inl e"
    and "\<forall>ev \<in> set (primaryEvents w p d c). \<not> isRenderingCall ev"
  using puppeteerTry_extraction_fails [OF assms, of d c] by (simp_all add: primary_from_try)

lemma fallback_extraction_fails:
  assumes "fallbackExtraction w p = Inl e"
  shows "fallbackOutcome w p d c = Inl (case import_pdf_lib w of Some e' \<Rightarrow> e' | None \<Rightarrow> e)
     \<and> (\<forall>ev \<in> set (fallbackEvents w p d c). \<not> isRenderingCall ev)"
  using assms
proof (cases rule: fallbackExtraction_InlE)
  case 1
  then show ?thesis
    by (simp add: alternativeTry_def start_def fallbackOutcome_def fallbackEvents_def io_steps
          split: option.splits)
next
  case (2 b)
  then show ?thesis
    by (simp add: alternativeTry_def start_def fallbackOutcome_def fallbackEvents_def io_steps
          split: option.splits)
qed

lemma launch_reached:
  assumes "primaryExtraction w p = Inr r"
  shows "PuppeteerLaunch \<in> set (primaryEvents w p d c)"
  using assms
proof (cases rule: primaryExtraction_InrE)
  case (1 b)
  then have "PuppeteerLaunch \<in> set (trace (snd (puppeteerTry w p d c start)))"
    by (simp add: puppeteerTry_def start_def io_steps split: sum.splits option.splits)
  then show ?thesis by (simp add: primary_from_try)
qed

subsection \<open>Release of the browser (claim C7)\<close>

text \<open>
  Claim C7. The headless browser that the primary renderer acquires is released on every
  exit path of the primary attempt, before control returns to the coordinator: whenever
  \<open>puppeteer.launch\<close> was called and resolved, \<open>browser.close\<close> is called exactly once
  and is the last call of the attempt, whether the attempt succeeds or any later call
  throws. When the browser was not acquired (an earlier call threw, or the launch itself
  did), there is nothing to release and \<open>close\<close> is not called. The calls of the attempt
  are appended to the trace of the caller.
\<close>

theorem primary_releases_browser:
  "trace (snd (convertWordToPDFWithPuppeteer w p d c s)) = trace s @ primaryEvents w p d c
   \<and> (if PuppeteerLaunch \<in> set (primaryEvents w p d c) \<and> puppeteer_launch w = None
      then last (primaryEvents w p d c) = BrowserClose
           \<and> count_list (primaryEvents w p d c) BrowserClose = 1
      else BrowserClose \<notin> set (primaryEvents w p d c))"
proof -
  have "trace (snd (convertWordToPDFWithPuppeteer w p d c s)) = trace s @ primaryEvents w p d c"
    by (simp add: primary_run)
  moreover have "BrowserClose \<notin> set (trace (snd (puppeteerTry w p d c start)))"
    using puppeteerTry_events [of w p d c] by simp
  then have "if PuppeteerLaunch \<in> set (primaryEvents w p d c) \<and> puppeteer_launch w = None
      then last (primaryEvents w p d c) = BrowserClose
           \<and> count_list (primaryEvents w p d c) BrowserClose = 1
      else BrowserClose \<notin> set (primaryEvents w p d c)"
    by (simp add: primary_from_try puppeteerTry_browser count_list_0_iff)
  ultimately show ?thesis by blast
qed

lemma hostWorld_extraction:
  "primaryExtraction hostWorld p = Inr (Some (str ''<p>Scope</p>''))"
  "primaryExtraction contentTimesOut p = Inr (Some (str ''<p>Scope</p>''))"
  "primaryExtraction pdfFails p = Inr (Some (str ''<p>Scope</p>''))"
  "primaryExtraction launchFails p = Inr (Some (str ''<p>Scope</p>''))"
  by (simp_all add: primaryExtraction_def hostWorld_def contentTimesOut_def pdfFails_def
        launchFails_def)

text \<open>
  Witness for C7: the browser is closed last on success, when setting the content times
  out and when \<open>page.pdf\<close> throws; it is not closed when the launch failed.
\<close>

theorem primary_releases_browser_witness:
  "last (primaryEvents hostWorld wordFile sopDocument None) = BrowserClose
   \<and> last (primaryEvents contentTimesOut wordFile sopDocument None) = BrowserClose
   \<and> last (primaryEvents pdfFails wordFile sopDocument None) = BrowserClose
   \<and> BrowserClose \<notin> set (primaryEvents launchFails wordFile sopDocument None)"
  using primary_releases_browser [of hostWorld wordFile sopDocument None start]
    primary_releases_browser [of contentTimesOut wordFile sopDocument None start]
    primary_releases_browser [of pdfFails wordFile sopDocument None start]
    primary_releases_browser [of launchFails wordFile sopDocument None start]
    launch_reached [OF hostWorld_extraction(1)] launch_reached [OF hostWorld_extraction(2)]
    launch_reached [OF hostWorld_extraction(3)]
  by (simp add: hostWorld_def contentTimesOut_def pdfFails_def launchFails_def)

subsection \<open>One attempt per stage (claim C3)\<close>

lemma count_list_distinct:
  "distinct xs \<Longrightarrow> count_list xs x = (if x \<in> set xs then 1 else 0)"
  by (induction xs) (auto simp: count_list_0_iff)

lemma fallbackEvents_no_console:
  "ConsoleError m \<notin> set (fallbackEvents w p d c)"
  unfolding alternativeTry_def start_def fallbackEvents_def
  by (simp add: io_steps split: sum.splits option.splits)

lemma primaryEvents_launch_once: "count_list (primaryEvents w p d c) PuppeteerLaunch \<le> 1"
  by (simp add: count_list_distinct [OF primaryEvents_distinct])

text \<open>
  Claim C3. For every input the coordinator attempts the primary renderer exactly once; on
  any exception of the primary stage it attempts the fallback renderer exactly once; no
  call is repeated within a stage; and when the fallback fails too, the coordinator throws
  an error whose message is \<open>PDF generation failed completely: \<close> followed by the
  fallback's own message. In detail: the trace of a conversion is the log line, the calls of
  one run of the primary renderer and, only when that run threw, the error line, the calls
  of one run of the fallback and, when that threw, its error line; the calls of each run are
  distinct; \<open>fs.access\<close>, the first call of the primary renderer, occurs once, and the
  import of pdf-lib, the first call of the fallback, occurs once or never, according to the
  outcome of the primary run.
\<close>

theorem coordinator_attempts_each_stage_once:
  "fst (convertWordToPDF w p d c start) =
     (case primaryOutcome w p d c of
        Inr pdfPath \<Rightarrow> Inr pdfPath
      | Inl err \<Rightarrow>
          (case fallbackOutcome w p d c of
             Inr pdfPath \<Rightarrow> Inr pdfPath
           | Inl fallbackErr \<Rightarrow> Inl (str ''PDF generation failed completely: '' @ fallbackErr)))
   \<and> trace (snd (convertWordToPDF w p d c start)) =
     ConsoleLog (str ''[PDF] Attempting Puppeteer PDF for: '' @ docNumber d)
     # primaryEvents w p d c
     @ (case primaryOutcome w p d c of
          Inr pdfPath \<Rightarrow> []
        | Inl err \<Rightarrow>
            ConsoleError (str ''[PDF] Puppeteer failed: '' @ err
                          @ str ''. Switching to Professional Fallback...'')
            # fallbackEvents w p d c
            @ (case fallbackOutcome w p d c of
                 Inr pdfPath \<Rightarrow> []
               | Inl fallbackErr \<Rightarrow>
                   [ConsoleError (str ''[PDF] Fallback engine also failed: '' @ fallbackErr)]))
   \<and> distinct (primaryEvents w p d c) \<and> distinct (fallbackEvents w p d c)
   \<and> count_list (trace (snd (convertWordToPDF w p d c start))) (FsAccess p) = 1
   \<and> count_list (trace (snd (convertWordToPDF w p d c start))) PuppeteerLaunch \<le> 1
   \<and> count_list (trace (snd (convertWordToPDF w p d c start))) ImportPdfLib
       = (case primaryOutcome w p d c of Inr pdfPath \<Rightarrow> 0 | Inl err \<Rightarrow> 1)"
proof -
  note fb = fallbackEvents_props [of w p d c]
  from fb have fbd: "distinct (fallbackEvents w p d c)" by simp
  have a: "count_list (primaryEvents w p d c) (FsAccess p) = 1"
    using primaryEvents_first [of w p d c]
    by (auto simp: count_list_distinct [OF primaryEvents_distinct])
  have b: "count_list (fallbackEvents w p d c) (FsAccess p) = 0"
    using fb by (simp add: count_list_0_iff)
  have c: "count_list (fallbackEvents w p d c) PuppeteerLaunch = 0"
    using fb by (simp add: count_list_0_iff)
  have e: "count_list (primaryEvents w p d c) ImportPdfLib = 0"
    using primaryEvents_no_import by (simp add: count_list_0_iff)
  have f: "count_list (fallbackEvents w p d c) ImportPdfLib = 1"
    using fb by (auto simp: count_list_distinct [OF fbd])
  have "count_list (trace (snd (convertWordToPDF w p d c start))) (FsAccess p) = 1"
    using a b by (simp add: coordinator_run split: sum.splits)
  moreover have "count_list (trace (snd (convertWordToPDF w p d c start))) PuppeteerLaunch \<le> 1"
    using primaryEvents_launch_once [of w p d c] c by (simp add: coordinator_run split: sum.splits)
  moreover have "count_list (trace (snd (convertWordToPDF w p d c start))) ImportPdfLib
       = (case primaryOutcome w p d c of Inr pdfPath \<Rightarrow> 0 | Inl err \<Rightarrow> 1)"
    using e f by (simp add: coordinator_run split: sum.splits)
  ultimately show ?thesis
    using coordinator_run [of w p d c] primaryEvents_distinct [of w p d c] fbd by simp
qed

lemma bothFail_primary:
  "primaryOutcome bothFail wordFile sopDocument None = Inl (str ''Failed to launch the browser process'')"
  by (simp add: primary_from_try puppeteerTry_def start_def io_steps bothFail_def launchFails_def
        hostWorld_def)

lemma bothFail_fallback:
  "fallbackOutcome bothFail wordFile sopDocument None = Inl (str ''Could not embed font'')"
  by (simp add: fallbackOutcome_def alternativeTry_def start_def io_steps bothFail_def
        launchFails_def hostWorld_def)

text \<open>Witness for C3: the launch fails, then embedding the font fails.\<close>

theorem coordinator_attempts_each_stage_once_witness:
  "fst (convertWordToPDF bothFail wordFile sopDocument None start)
     = Inl (str ''PDF generation failed completely: '' @ str ''Could not embed font'')
   \<and> count_list (trace (snd (convertWordToPDF bothFail wordFile sopDocument None start)))
        (FsAccess wordFile) = 1
   \<and> count_list (trace (snd (convertWordToPDF bothFail wordFile sopDocument None start)))
        ImportPdfLib = 1"
  using coordinator_attempts_each_stage_once [of bothFail wordFile sopDocument None]
  unfolding bothFail_primary bothFail_fallback sum.case by blast

subsection \<open>Failing extraction (claim C2)\<close>

text \<open>
  Claim C2, as amended. A source file whose content extraction fails in the primary stage
  is treated as any other failure of that stage: the primary stage makes no rendering call
  and the coordinator attempts the fallback renderer. When the extraction of the fallback
  stage fails as well, no rendering call is made in either stage (no browser is launched,
  no PDF document is created, nothing is written) and the conversion throws the error
  \<open>PDF generation failed completely: \<close> followed by the failure message of the fallback
  stage (that of the import of pdf-lib when that fails, of its extraction otherwise).
\<close>

theorem extraction_failure_goes_through_fallback:
  assumes "primaryExtraction w p = Inl e1"
  shows "ImportPdfLib \<in> set (trace (snd (convertWordToPDF w p d c start)))
         \<and> (\<forall>ev \<in> set (primaryEvents w p d c). \<not> isRenderingCall ev)
         \<and> (fallbackExtraction w p = Inl e2 \<longrightarrow>
              fst (convertWordToPDF w p d c start)
                = Inl (str ''PDF generation failed completely: ''
                       @ (case import_pdf_lib w of Some e \<Rightarrow> e | None \<Rightarrow> e2))
              \<and> (\<forall>ev \<in> set (trace (snd (convertWordToPDF w p d c start))).
                    \<not> isRenderingCall ev))"
proof -
  note p = primary_extraction_fails [OF assms, of d c]
  from fallbackEvents_props [of w p d c] have i: "ImportPdfLib \<in> set (fallbackEvents w p d c)"
    by auto
  with p have "ImportPdfLib \<in> set (trace (snd (convertWordToPDF w p d c start)))"
    by (simp add: coordinator_run)
  moreover have "fallbackExtraction w p = Inl e2 \<longrightarrow>
              fst (convertWordToPDF w p d c start)
                = Inl (str ''PDF generation failed completely: ''
                       @ (case import_pdf_lib w of Some e \<Rightarrow> e | None \<Rightarrow> e2))
              \<and> (\<forall>ev \<in> set (trace (snd (convertWordToPDF w p d c start))).
                    \<not> isRenderingCall ev)"
  proof
    assume "fallbackExtraction w p = Inl e2"
    from fallback_extraction_fails [OF this, of d c] p
    show "fst (convertWordToPDF w p d c start)
                = Inl (str ''PDF generation failed completely: ''
                       @ (case import_pdf_lib w of Some e \<Rightarrow> e | None \<Rightarrow> e2))
              \<and> (\<forall>ev \<in> set (trace (snd (convertWordToPDF w p d c start))).
                    \<not> isRenderingCall ev)"
      by (auto simp: coordinator_run)
  qed
  ultimately show ?thesis using p(2) by blast
qed

lemma corruptFile_extraction:
  "primaryExtraction corruptFile wordFile
     = Inl (str ''Could not find the body element: are you sure this is a docx file?'')"
  "fallbackExtraction corruptFile wordFile
     = Inl (str ''Could not find the body element: are you sure this is a docx file?'')"
  "import_pdf_lib corruptFile = None"
  by (simp_all add: primaryExtraction_def fallbackExtraction_def corruptFile_def hostWorld_def)

text \<open>Witness for C2: a file that mammoth cannot read, in either mode.\<close>

theorem extraction_failure_goes_through_fallback_witness:
  "fst (convertWordToPDF corruptFile wordFile sopDocument None start)
     = Inl (str ''PDF generation failed completely: ''
            @ str ''Could not find the body element: are you sure this is a docx file?'')
   \<and> list_all (\<lambda>ev. \<not> isRenderingCall ev)
        (trace (snd (convertWordToPDF corruptFile wordFile sopDocument None start)))"
  using extraction_failure_goes_through_fallback
          [OF corruptFile_extraction(1), of sopDocument None
             "str ''Could not find the body element: are you sure this is a docx file?''"]
  by (simp add: corruptFile_extraction(2,3) list_all_iff)

text \<open>
  Counterexample to C2 as stated: the extraction of the primary stage fails, and the
  fallback renderer is attempted all the same (pdf-lib is imported, the raw text
  extraction is called); what is thrown is not the extraction error.
\<close>

theorem extraction_failure_not_fatal_counterexample:
  "primaryExtraction corruptFile wordFile
     = Inl (str ''Could not find the body element: are you sure this is a docx file?'')
   \<and> ImportPdfLib \<in> set (trace (snd (convertWordToPDF corruptFile wordFile sopDocument None start)))
   \<and> MammothExtractRawText [0x50, 0x4B]
        \<in> set (trace (snd (convertWordToPDF corruptFile wordFile sopDocument None start)))
   \<and> fst (convertWordToPDF corruptFile wordFile sopDocument None start)
        \<noteq> Inl (str ''Could not find the body element: are you sure this is a docx file?'')"
proof -
  have "fallbackEvents corruptFile wordFile sopDocument None
          = [ImportPdfLib, FsReadFile wordFile, MammothExtractRawText [0x50, 0x4B]]"
    by (simp add: fallbackEvents_def alternativeTry_def start_def io_steps corruptFile_def
          hostWorld_def)
  moreover have "primaryOutcome corruptFile wordFile sopDocument None
          = Inl (str ''Could not find the body element: are you sure this is a docx file?'')"
    by (rule primary_extraction_fails(1) [OF corruptFile_extraction(1)])
  moreover have "fallbackOutcome corruptFile wordFile sopDocument None
          = Inl (str ''Could not find the body element: are you sure this is a docx file?'')"
    using fallback_extraction_fails [OF corruptFile_extraction(2), of sopDocument None]
    by (simp add: corruptFile_extraction(3))
  ultimately show ?thesis
    by (simp add: coordinator_run corruptFile_extraction(1) str_def)
qed

section \<open>The path of the rendered file\<close>

subsection \<open>Splitting, joining and normalising\<close>

lemma split_char_nonempty: "split_char sep s \<noteq> []"
  by (induction s) (auto split: list.splits)

lemma split_char_append_sep:
  "split_char sep (a @ sep # b) = split_char sep a @ split_char sep b"
proof (induction a)
  case Nil
  then show ?case by simp
next
  case (Cons x xs)
  then show ?case
    using split_char_nonempty [of sep xs] by (cases "split_char sep xs") auto
qed

lemma split_char_pieces:
  "s \<in> set (split_char sep p) \<Longrightarrow> sep \<notin> set s"
proof (induction p arbitrary: s)
  case Nil
  then show ?case by simp
next
  case (Cons x xs)
  then show ?case
    using split_char_nonempty [of sep xs]
    by (cases "split_char sep xs") (auto split: if_splits)
qed

lemma join_snoc:
  "join (xs @ [y]) sep = (if xs = [] then y else join xs sep @ sep @ y)"
  by (induction xs sep rule: join.induct) auto

lemma split_char_join:
  "segs \<noteq> [] \<Longrightarrow> \<forall>s \<in> set segs. sep \<notin> set s \<Longrightarrow> split_char sep (join segs [sep]) = segs"
proof (induction segs "[sep]" rule: join.induct)
  case 1
  then show ?case by simp
next
  case (2 x)
  then show ?case by (simp add: split_char_no_sep)
next
  case (3 x y ys)
  then show ?case
    using split_char_append_sep [of sep x "join (y # ys) [sep]"]
    by (simp add: split_char_no_sep)
qed

lemma resolve_segments_append:
  "resolve_segments a res (xs @ ys) = resolve_segments a (resolve_segments a res xs) ys"
  by (induction xs arbitrary: res) auto

lemma resolve_segments_clean:
  "\<forall>s \<in> set segs. cleanSegment s \<Longrightarrow> resolve_segments a res segs = res @ segs"
  by (induction segs arbitrary: res) (auto simp: cleanSegment_def)

lemma resolve_segments_result_clean:
  "\<forall>s \<in> set res. cleanSegment s \<Longrightarrow> \<forall>s \<in> set segs. 0x2F \<notin> set s \<Longrightarrow>
   \<forall>s \<in> set (resolve_segments False res segs). cleanSegment s"
proof (induction segs arbitrary: res)
  case Nil
  then show ?case by simp
next
  case (Cons seg segs)
  have bl: "\<forall>s \<in> set (butlast res). cleanSegment s"
    using Cons.prems(1) by (auto dest: in_set_butlastD)
  have ap: "\<not> (seg = [] \<or> seg = str ''.'') \<Longrightarrow> seg \<noteq> str ''..''
              \<Longrightarrow> \<forall>s \<in> set (res @ [seg]). cleanSegment s"
    using Cons.prems by (auto simp: cleanSegment_def)
  from Cons.prems(2) have rest: "\<forall>s \<in> set segs. 0x2F \<notin> set s" by simp
  show ?case
    using Cons.IH [OF Cons.prems(1) rest] Cons.IH [OF bl rest] Cons.IH [OF ap rest]
    by simp
qed

lemma slash: "str ''/'' = [0x2F]"
  by (simp add: str_def)

text \<open>The directory of the PDFs, for an absolute working directory.\<close>

lemma pdfsDir_segments:
  assumes "cwd w \<noteq> []" and "hd (cwd w) = 0x2F"
  shows "\<exists>segs. pdfsDir w = 0x2F # join segs [0x2F] \<and> segs \<noteq> []
               \<and> (\<forall>s \<in> set segs. cleanSegment s)"
proof -
  let ?base = "resolve_segments False [] (split_char 0x2F (cwd w))"
  let ?R = "?base @ [str ''pdfs'']"
  have pd: "cleanSegment (str ''pdfs'')" by (simp add: cleanSegment_def str_def)
  have "\<forall>s \<in> set ?base. cleanSegment s"
    by (rule resolve_segments_result_clean) (auto dest: split_char_pieces)
  with pd have clean: "\<forall>s \<in> set ?R. cleanSegment s" by simp
  have "split_char 0x2F (cwd w @ 0x2F # str ''pdfs'')
          = split_char 0x2F (cwd w) @ [str ''pdfs'']"
    using pd by (simp add: split_char_append_sep split_char_no_sep cleanSegment_def)
  then have seg: "resolve_segments False [] (split_char 0x2F (cwd w @ 0x2F # str ''pdfs'')) = ?R"
    using pd by (simp add: resolve_segments_append cleanSegment_def)
  have ne: "join ?R [0x2F] \<noteq> []"
    using pd by (simp add: join_snoc cleanSegment_def)
  have "pdfsDir w = path_normalize (cwd w @ 0x2F # str ''pdfs'')"
    using assms(1) by (simp add: pdfsDir_def path_join_def slash str_def)
  also have "\<dots> = 0x2F # join ?R [0x2F]"
    using assms ne seg by (simp add: path_normalize_def slash Let_def str_def)
  finally show ?thesis using clean by blast
qed

lemma path_join_file:
  assumes "cwd w \<noteq> []" and "hd (cwd w) = 0x2F" and "cleanSegment name"
  shows "path_join (pdfsDir w) name = pdfsDir w @ str ''/'' @ name"
proof -
  from pdfsDir_segments [OF assms(1,2)] obtain segs where
    s: "pdfsDir w = 0x2F # join segs [0x2F]" "segs \<noteq> []" "\<forall>s \<in> set segs. cleanSegment s"
    by blast
  let ?p = "pdfsDir w @ 0x2F # name"
  from assms(3) have nm0: "name \<noteq> []" "0x2F \<notin> set name"
    by (auto simp: cleanSegment_def)
  then have "last name \<noteq> 0x2F" by (metis last_in_set)
  with nm0 have nm: "name \<noteq> []" "0x2F \<notin> set name" "last name \<noteq> 0x2F"
    by blast+
  have j: "join segs [0x2F] @ 0x2F # name = join (segs @ [name]) [0x2F]"
    using s(2) by (simp add: join_snoc)
  have p: "?p = 0x2F # join (segs @ [name]) [0x2F]"
    using j by (simp add: s(1))
  have all: "\<forall>s \<in> set (segs @ [name]). cleanSegment s"
    using s(3) assms(3) by simp
  then have nosep: "\<forall>s \<in> set (segs @ [name]). 0x2F \<notin> set s"
    by (simp add: cleanSegment_def)
  have "split_char 0x2F ?p = [] # (segs @ [name])"
    unfolding p using split_char_join [of "segs @ [name]" "0x2F", OF _ nosep] by simp
  then have r: "resolve_segments False [] (split_char 0x2F ?p) = segs @ [name]"
    using resolve_segments_clean [OF all, of False "[]"] by simp
  have ne: "join (segs @ [name]) [0x2F] \<noteq> []"
    using nm(1) by (simp add: join_snoc)
  have "path_join (pdfsDir w) name = path_normalize ?p"
    using nm(1) by (simp add: path_join_def slash s(1))
  also have "\<dots> = 0x2F # join (segs @ [name]) [0x2F]"
    using r ne nm by (simp add: path_normalize_def slash Let_def s(1))
  also have "\<dots> = ?p" by (simp add: p)
  finally show ?thesis by (simp add: slash)
qed

subsection \<open>The file name\<close>

lemma digit_not_slash: "k < 10 \<Longrightarrow> (of_nat (48 + k) :: jschar) \<noteq> 0x2F"
proof
  assume k: "k < 10" and eq: "(of_nat (48 + k) :: jschar) = 0x2F"
  have "(0x2F :: jschar) = of_nat 47" by simp
  with eq have "(of_nat (48 + k) :: jschar) = of_nat 47" by (simp only:)
  then have "take_bit LENGTH(16) (48 + k) = take_bit LENGTH(16) (47 :: nat)"
    by (simp only: word_of_nat_eq_iff)
  then have "take_bit 16 (48 + k) = take_bit 16 (47 :: nat)" by simp
  moreover from k have "48 + k < 2 ^ 16" by simp
  then have "take_bit 16 (48 + k) = 48 + k" by (simp only: take_bit_nat_eq_self)
  moreover have "take_bit 16 (47 :: nat) = 47" by simp
  ultimately show False by simp
qed

lemma showNat_no_slash: "0x2F \<notin> set (showNat n)"
proof (induction n rule: showNat.induct)
  case (1 n)
  show ?case
  proof (cases "n < 10")
    case True
    then show ?thesis using digit_not_slash [of n] by (subst showNat.simps) auto
  next
    case False
    have "n mod 10 < 10" by simp
    from digit_not_slash [OF this] 1 False show ?thesis
      by (subst showNat.simps) auto
  qed
qed

lemma template_number_no_slash: "0x2F \<notin> set (template_number v)"
  by (cases v) (simp_all add: template_number_def showNat_no_slash str_def)

lemma pdf_name_clean:
  assumes "0x2F \<notin> set docNo" and "0x2F \<notin> set tag"
  shows "cleanSegment (docNo @ str ''_v'' @ template_number v @ tag @ showNat n @ str ''.pdf'')"
proof -
  let ?name = "docNo @ str ''_v'' @ template_number v @ tag @ showNat n @ str ''.pdf''"
  have "4 \<le> length ?name" by (simp add: str_def)
  then have "?name \<noteq> [] \<and> ?name \<noteq> str ''.'' \<and> ?name \<noteq> str ''..''"
    by (auto simp: str_def)
  moreover have "0x2F \<notin> set ?name"
    using assms by (simp add: showNat_no_slash template_number_no_slash str_def)
  ultimately show ?thesis by (simp add: cleanSegment_def)
qed

lemma puppeteerTry_path:
  "fst (puppeteerTry w p d c start) = Inr pdfPath \<Longrightarrow>
   pdfPath = path_join (pdfsDir w)
     (docNumber d @ str ''_v'' @ template_number (revisionNo d) @ str ''_final_''
      @ showNat (Date_now w) @ str ''.pdf'')"
  unfolding puppeteerTry_def start_def
  by (simp add: io_steps split: sum.splits option.splits)

lemma primary_path:
  assumes "primaryOutcome w p d c = Inr pdfPath"
  shows "pdfPath = path_join (pdfsDir w)
     (docNumber d @ str ''_v'' @ template_number (revisionNo d) @ str ''_final_''
      @ showNat (Date_now w) @ str ''.pdf'')"
proof -
  from assms have "fst (puppeteerTry w p d c start) = Inr pdfPath"
    by (simp add: primary_from_try split: if_splits option.splits)
  then show ?thesis by (rule puppeteerTry_path)
qed

lemma fallback_path:
  "fallbackOutcome w p d c = Inr pdfPath \<Longrightarrow>
   pdfPath = path_join (pdfsDir w)
     (docNumber d @ str ''_v'' @ template_number (revisionNo d) @ str ''_fallback_''
      @ showNat (Date_now w) @ str ''.pdf'')"
  unfolding alternativeTry_def start_def fallbackOutcome_def
  by (simp add: io_steps split: sum.splits option.splits)

lemma alternative_outcome:
  "fst (convertWordToPDFAlternative w p d c start) =
     (case fallbackOutcome w p d c of
        Inr pdfPath \<Rightarrow> Inr pdfPath
      | Inl fallbackErr \<Rightarrow> Inl (str ''PDF generation failed completely: '' @ fallbackErr))"
  by (simp add: convertWordToPDFAlternative_def try_catch_def io_bind_call alternativeTry_run
        split: sum.splits)

subsection \<open>The returned path\<close>

text \<open>
  Where the working directory is an absolute path and the number of the document has no
  slash, the path that a successful render returns is the PDFs directory, a slash and the
  file name that the renderer has built.
\<close>

lemma rendered_file_path_without_slash:
  assumes "cwd w \<noteq> []" and "hd (cwd w) = 0x2F" and "0x2F \<notin> set (docNumber d)"
  shows "(primaryOutcome w p d c = Inr pdfPath \<longrightarrow>
            pdfPath = pdfsDir w @ str ''/'' @ docNumber d @ str ''_v''
                      @ template_number (revisionNo d) @ str ''_final_''
                      @ showNat (Date_now w) @ str ''.pdf'')
       \<and> (fst (convertWordToPDFAlternative w p d c start) = Inr pdfPath' \<longrightarrow>
            pdfPath' = pdfsDir w @ str ''/'' @ docNumber d @ str ''_v''
                       @ template_number (revisionNo d) @ str ''_fallback_''
                       @ showNat (Date_now w) @ str ''.pdf'')"
proof -
  have f: "0x2F \<notin> set (str ''_final_'')" "0x2F \<notin> set (str ''_fallback_'')"
    by (simp_all add: str_def)
  note a = path_join_file [OF assms(1,2) pdf_name_clean [OF assms(3) f(1)]]
  note b = path_join_file [OF assms(1,2) pdf_name_clean [OF assms(3) f(2)]]
  have "primaryOutcome w p d c = Inr pdfPath \<longrightarrow>
            pdfPath = pdfsDir w @ str ''/'' @ docNumber d @ str ''_v''
                      @ template_number (revisionNo d) @ str ''_final_''
                      @ showNat (Date_now w) @ str ''.pdf''"
    using primary_path [of w p d c pdfPath] a by simp
  moreover have "fst (convertWordToPDFAlternative w p d c start) = Inr pdfPath' \<longrightarrow>
            pdfPath' = pdfsDir w @ str ''/'' @ docNumber d @ str ''_v''
                       @ template_number (revisionNo d) @ str ''_fallback_''
                       @ showNat (Date_now w) @ str ''.pdf''"
    using fallback_path [of w p d c pdfPath'] b
    by (auto simp: alternative_outcome split: sum.splits)
  ultimately show ?thesis by blast
qed

subsection \<open>Evaluation on the host\<close>

lemma firstDrawError_none:
  "(\<And>t. page_drawText w t = None) \<Longrightarrow> firstDrawError w pages = None"
proof -
  assume a: "\<And>t. page_drawText w t = None"
  have "List.map_filter
             (\<lambda>op. case op of DrawText t x y sz f \<Rightarrow> page_drawText w t
                              | DrawRectangle x y wd ht \<Rightarrow> None) ops = []" for ops
    by (induction ops) (auto simp: List.map_filter_simps a split: drawop.splits)
  then show ?thesis by (simp add: firstDrawError_def)
qed

lemma io_bind_Pair:
  "io_bind (Pair (Inr x)) k = k x"
  "io_bind (Pair (Inl e)) k = Pair (Inl e)"
  by (auto simp: io_bind_def)

lemma hostWorld_fields:
  "cwd hostWorld = str ''/app''"
  "Date_now hostWorld = 1700000000000"
  "fs_access hostWorld p = None"
  "fs_readFile hostWorld p = Inr [0x50, 0x4B]"
  "fs_writeFile hostWorld p b = None"
  "mammoth_convertToHtml hostWorld b = Inr (Some (str ''<p>Scope</p>''))"
  "mammoth_extractRawText hostWorld b = Inr (Some (str ''Scope''))"
  "puppeteer_launch hostWorld = None"
  "browser_newPage hostWorld = None"
  "page_setContent hostWorld html = None"
  "page_evaluate hostWorld = None"
  "page_pdf hostWorld html header footer = Inr [0x25, 0x50, 0x44, 0x46]"
  "browser_close hostWorld = None"
  "import_pdf_lib hostWorld = None"
  "PDFDocument_create hostWorld = None"
  "pdfDoc_embedFont hostWorld f = None"
  "page_drawText hostWorld t = None"
  "pdfDoc_save hostWorld pages = Inr [0x25, 0x50, 0x44, 0x46]"
  by (simp_all add: hostWorld_def)

lemma hostWorld_primary:
  "primaryOutcome hostWorld p d c =
     Inr (path_join (pdfsDir hostWorld)
            (docNumber d @ str ''_v'' @ template_number (revisionNo d) @ str ''_final_''
             @ showNat 1700000000000 @ str ''.pdf''))"
  by (simp add: primary_from_try puppeteerTry_def start_def io_steps hostWorld_fields)

lemma hostWorld_fallback:
  "fallbackOutcome hostWorld p d c =
     Inr (path_join (pdfsDir hostWorld)
            (docNumber d @ str ''_v'' @ template_number (revisionNo d) @ str ''_fallback_''
             @ showNat 1700000000000 @ str ''.pdf''))"
proof -
  have "firstDrawError hostWorld pages = None" for pages
    by (rule firstDrawError_none) (simp add: hostWorld_fields)
  then show ?thesis
    by (simp add: fallbackOutcome_def alternativeTry_def start_def io_steps io_bind_Pair
          hostWorld_fields)
qed

lemma showNat_clock: "showNat 1700000000000 = str ''1700000000000''"
  by (simp add: showNat.simps str_def)

lemma pdfsDir_hostWorld: "pdfsDir hostWorld = str ''/app/pdfs''"
  by (simp add: pdfsDir_def path_join_def path_normalize_def hostWorld_def str_def Let_def)

text \<open>The two paths for the document \<open>QC-SOP-001\<close>, revision 2.\<close>

lemma rendered_file_path_on_host:
  "primaryOutcome hostWorld wordFile sopDocument None
     = Inr (str ''/app/pdfs/QC-SOP-001_v2_final_1700000000000.pdf'')
   \<and> fst (convertWordToPDFAlternative hostWorld wordFile sopDocument None start)
     = Inr (str ''/app/pdfs/QC-SOP-001_v2_fallback_1700000000000.pdf'')"
proof -
  have h: "cwd hostWorld \<noteq> []" "hd (cwd hostWorld) = 0x2F" "0x2F \<notin> set (docNumber sopDocument)"
    by (simp_all add: hostWorld_def sopDocument_def str_def)
  note d = hostWorld_fields(2)
  have n: "docNumber sopDocument @ str ''_v'' @ template_number (revisionNo sopDocument) = str ''QC-SOP-001_v2''"
    by (simp add: sopDocument_def template_number_def showNat.simps str_def)
  have alt: "fst (convertWordToPDFAlternative hostWorld wordFile sopDocument None start)
     = Inr (path_join (pdfsDir hostWorld)
            (docNumber sopDocument @ str ''_v'' @ template_number (revisionNo sopDocument) @ str ''_fallback_''
             @ showNat 1700000000000 @ str ''.pdf''))"
    by (simp add: alternative_outcome hostWorld_fallback)
  from rendered_file_path_without_slash [OF h, of wordFile None "path_join (pdfsDir hostWorld)
            (docNumber sopDocument @ str ''_v'' @ template_number (revisionNo sopDocument) @ str ''_final_''
             @ showNat 1700000000000 @ str ''.pdf'')" "path_join (pdfsDir hostWorld)
            (docNumber sopDocument @ str ''_v'' @ template_number (revisionNo sopDocument) @ str ''_fallback_''
             @ showNat 1700000000000 @ str ''.pdf'')"]
  have "path_join (pdfsDir hostWorld)
            (docNumber sopDocument @ str ''_v'' @ template_number (revisionNo sopDocument) @ str ''_final_''
             @ showNat 1700000000000 @ str ''.pdf'')
        = pdfsDir hostWorld @ str ''/'' @ (docNumber sopDocument @ str ''_v'' @ template_number (revisionNo sopDocument))
            @ str ''_final_'' @ showNat 1700000000000 @ str ''.pdf''"
    and "path_join (pdfsDir hostWorld)
            (docNumber sopDocument @ str ''_v'' @ template_number (revisionNo sopDocument) @ str ''_fallback_''
             @ showNat 1700000000000 @ str ''.pdf'')
        = pdfsDir hostWorld @ str ''/'' @ (docNumber sopDocument @ str ''_v'' @ template_number (revisionNo sopDocument))
            @ str ''_fallback_'' @ showNat 1700000000000 @ str ''.pdf''"
    by (simp_all add: hostWorld_primary alt d)
  then show ?thesis
    unfolding hostWorld_primary alt
    by (simp add: n pdfsDir_hostWorld showNat_clock) (simp add: str_def)
qed

subsection \<open>A document number that leaves the PDFs directory (claim C5)\<close>

text \<open>
  Claim C5, where the code departs from it. The document number \<open>../QC-SOP-001\<close> is a
  non-empty string, which is all that the upload form asks of it. Both renderers put it
  unchecked at the front of the file name and give the name to \<open>path.join\<close> with the PDFs
  directory, and \<open>path.join\<close> resolves the \<open>..\<close>: the primary render succeeds and returns
  \<open>/app/QC-SOP-001_v2_final_1700000000000.pdf\<close>, and the fallback render the same with
  \<open>fallback\<close>. Neither path is under the PDFs directory \<open>/app/pdfs\<close>, and the name of the
  file does not start with the document number.
\<close>

theorem rendered_file_escapes_pdfs_directory:
  "primaryOutcome hostWorld wordFile escapingDocument None
     = Inr (str ''/app/QC-SOP-001_v2_final_1700000000000.pdf'')
   \<and> fst (convertWordToPDFAlternative hostWorld wordFile escapingDocument None start)
     = Inr (str ''/app/QC-SOP-001_v2_fallback_1700000000000.pdf'')
   \<and> docNumber escapingDocument = str ''../QC-SOP-001''
   \<and> pdfsDir hostWorld = str ''/app/pdfs''
   \<and> take (length (str ''/app/pdfs'')) (str ''/app/QC-SOP-001_v2_final_1700000000000.pdf'')
       \<noteq> str ''/app/pdfs''
   \<and> take (length (str ''/app/pdfs'')) (str ''/app/QC-SOP-001_v2_fallback_1700000000000.pdf'')
       \<noteq> str ''/app/pdfs''"
proof -
  have j: "path_join (str ''/app/pdfs'') (str ''../QC-SOP-001_v2_final_1700000000000.pdf'')
          = str ''/app/QC-SOP-001_v2_final_1700000000000.pdf''"
    "path_join (str ''/app/pdfs'') (str ''../QC-SOP-001_v2_fallback_1700000000000.pdf'')
          = str ''/app/QC-SOP-001_v2_fallback_1700000000000.pdf''"
    by (simp_all add: path_join_def path_normalize_def str_def Let_def)
  have n: "docNumber escapingDocument @ str ''_v'' @ template_number (revisionNo escapingDocument)
       @ str ''_final_'' @ showNat 1700000000000 @ str ''.pdf''
       = str ''../QC-SOP-001_v2_final_1700000000000.pdf''"
    "docNumber escapingDocument @ str ''_v'' @ template_number (revisionNo escapingDocument)
       @ str ''_fallback_'' @ showNat 1700000000000 @ str ''.pdf''
       = str ''../QC-SOP-001_v2_fallback_1700000000000.pdf''"
    by (simp_all add: escapingDocument_def sopDocument_def template_number_def showNat.simps
          str_def)
  have a: "primaryOutcome hostWorld wordFile escapingDocument None
     = Inr (str ''/app/QC-SOP-001_v2_final_1700000000000.pdf'')"
    using j(1) n(1) by (simp add: hostWorld_primary pdfsDir_hostWorld)
  have b: "fst (convertWordToPDFAlternative hostWorld wordFile escapingDocument None start)
     = Inr (str ''/app/QC-SOP-001_v2_fallback_1700000000000.pdf'')"
    using j(2) n(2) by (simp add: alternative_outcome hostWorld_fallback pdfsDir_hostWorld)
  have c: "docNumber escapingDocument = str ''../QC-SOP-001''"
    by (simp add: escapingDocument_def)
  have d: "take (length (str ''/app/pdfs'')) (str ''/app/QC-SOP-001_v2_final_1700000000000.pdf'')
       \<noteq> str ''/app/pdfs''"
    "take (length (str ''/app/pdfs'')) (str ''/app/QC-SOP-001_v2_fallback_1700000000000.pdf'')
       \<noteq> str ''/app/pdfs''"
    by (simp_all add: str_def)
  from a b c d pdfsDir_hostWorld show ?thesis by blast
qed

section \<open>Header and footer content\<close>

subsection \<open>Containing a text\<close>

lemma includes_str_iff: "includes_str s p = (\<exists>a b. s = a @ p @ b)"
proof (induction s)
  case Nil
  then show ?case by auto
next
  case (Cons c cs)
  have pre: "(take (length p) (c # cs) = p) = (\<exists>b. c # cs = p @ b)"
    by (metis append_eq_conv_conj)
  show ?case
  proof
    assume "includes_str (c # cs) p"
    then have "take (length p) (c # cs) = p \<or> includes_str cs p" by simp
    then show "\<exists>a b. c # cs = a @ p @ b"
    proof
      assume "take (length p) (c # cs) = p"
      with pre obtain b where "c # cs = [] @ p @ b" by auto
      then show ?thesis by blast
    next
      assume "includes_str cs p"
      with Cons.IH obtain a b where "cs = a @ p @ b" by blast
      then have "c # cs = (c # a) @ p @ b" by simp
      then show ?thesis by blast
    qed
  next
    assume "\<exists>a b. c # cs = a @ p @ b"
    then obtain a b where ab: "c # cs = a @ p @ b" by blast
    show "includes_str (c # cs) p"
    proof (cases a)
      case Nil
      with ab have "\<exists>b. c # cs = p @ b" by auto
      with pre have "take (length p) (c # cs) = p" by blast
      then show ?thesis by simp
    next
      case (Cons x xs)
      with ab have "cs = xs @ p @ b" by simp
      with Cons.IH show ?thesis by auto
    qed
  qed
qed

lemma includes_strI: "s = a @ p @ b \<Longrightarrow> includes_str s p"
  by (auto simp: includes_str_iff)

lemma includes_jslines:
  assumes "l \<in> set ls" and "includes_str l p"
  shows "includes_str (jslines ls) p"
proof -
  from assms(1) obtain xs ys where ls: "ls = xs @ l # ys" by (meson split_list)
  from assms(2) obtain a b where l: "l = a @ p @ b" by (auto simp: includes_str_iff)
  have "jslines ls = (jslines xs @ 0x0A # a) @ p @ (b @ jslines ys)"
    by (simp add: jslines_def ls l)
  then show ?thesis by (rule includes_strI)
qed

lemma includes_append:
  "includes_str s p \<Longrightarrow> includes_str (a @ s @ b) p"
  by (auto simp: includes_str_iff) (metis append.assoc)

subsection \<open>The controlled-copy stamp (claim C1)\<close>

lemma launchFails_fields:
  "cwd launchFails = str ''/app''"
  "Date_now launchFails = 1700000000000"
  "fs_access launchFails p = None"
  "fs_readFile launchFails p = Inr [0x50, 0x4B]"
  "fs_writeFile launchFails p b = None"
  "mammoth_convertToHtml launchFails b = Inr (Some (str ''<p>Scope</p>''))"
  "mammoth_extractRawText launchFails b = Inr (Some (str ''Scope''))"
  "puppeteer_launch launchFails = Some (str ''Failed to launch the browser process'')"
  "import_pdf_lib launchFails = None"
  "PDFDocument_create launchFails = None"
  "pdfDoc_embedFont launchFails f = None"
  "page_drawText launchFails t = None"
  "pdfDoc_save launchFails pages = Inr [0x25, 0x50, 0x44, 0x46]"
  by (simp_all add: launchFails_def hostWorld_fields)

lemma pdfsDir_launchFails: "pdfsDir launchFails = str ''/app/pdfs''"
  using pdfsDir_hostWorld by (simp add: pdfsDir_def launchFails_fields hostWorld_fields)

lemma contentLines_Scope: "contentLines (str ''Scope'') = [str ''Scope'']"
proof -
  have "0x0A \<notin> set (str ''Scope'')" by (simp add: str_def)
  moreover have "trim (str ''Scope'') \<noteq> []"
    by (rule trim_nonblank [of "0x53"]) (simp_all add: str_def isWhiteSpace_def)
  ultimately show ?thesis by (simp add: contentLines_def split_char_no_sep)
qed

lemma composePages_Scope:
  "composePages w d (str ''Scope'')
     = [drawHeader w d @ [DrawText (str ''Scope'') 50 (height - 170) 10 Helvetica]]"
proof -
  have "\<not> height - 170 < (150::rat)" by (simp add: height_def)
  moreover have "replace_non_printable (substring (str ''Scope'') 0 95) = str ''Scope''"
    by (simp add: replace_non_printable_def substring_def str_def)
  ultimately show ?thesis
    by (simp add: composePages_def contentLines_Scope)
qed

lemma launchFails_primary:
  "primaryOutcome launchFails p d c = Inl (str ''Failed to launch the browser process'')"
  by (simp add: primary_from_try puppeteerTry_def start_def io_steps launchFails_fields)

lemma launchFails_fallback:
  "fallbackOutcome launchFails p d c =
     Inr (path_join (pdfsDir launchFails)
            (docNumber d @ str ''_v'' @ template_number (revisionNo d) @ str ''_fallback_''
             @ showNat 1700000000000 @ str ''.pdf''))"
  "PdfDocSave (composePages launchFails d (str ''Scope'')) \<in> set (fallbackEvents launchFails p d c)"
proof -
  have fde: "firstDrawError launchFails pages = None" for pages
    by (rule firstDrawError_none) (simp add: launchFails_fields)
  show "fallbackOutcome launchFails p d c =
     Inr (path_join (pdfsDir launchFails)
            (docNumber d @ str ''_v'' @ template_number (revisionNo d) @ str ''_fallback_''
             @ showNat 1700000000000 @ str ''.pdf''))"
    by (simp add: fallbackOutcome_def alternativeTry_def start_def io_steps io_bind_Pair
          launchFails_fields fde)
  show "PdfDocSave (composePages launchFails d (str ''Scope'')) \<in> set (fallbackEvents launchFails p d c)"
    by (simp add: fallbackEvents_def alternativeTry_def start_def io_steps io_bind_Pair
          launchFails_fields fde or_else_def str_def)
qed

lemma drawHeader_texts_sop:
  "map opText (drawHeader launchFails sopDocument) =
     [str ''Document Name: Cleaning Procedure | Document Number: QC-SOP-001'',
      [], [],
      str ''Issue No: 01 | Revision No: 2'',
      str ''Date of Issue: 3/5/2024 | Due Date: N/A'',
      str ''Page: 1 of 1'']"
  by (simp add: drawHeader_def launchFails_def hostWorld_def sopDocument_def Let_def
        substring_def or_else_def number_or_zero_def asciiToUpperCase_def
        toLocaleDateString_en_US_def showNat.simps str_def)


lemma filter_opText:
  "filter P (map opText ops) = [] \<Longrightarrow> filter (\<lambda>op. P (opText op)) ops = []"
  by (induction ops) (auto split: if_splits)

lemma footer_has_stamp:
  "includes_str (getFooterTemplate w d (Some c))
     (str ''CONTROLLED COPY - NOT FOR REPRODUCTION | Printed by: '' @ userFullName c)"
proof -
  let ?l = "str ''            CONTROLLED COPY - NOT FOR REPRODUCTION | Printed by: '' @ userFullName c"
  let ?p = "str ''CONTROLLED COPY - NOT FOR REPRODUCTION | Printed by: '' @ userFullName c"
  have "?l = str ''            '' @ ?p @ []" by (simp add: str_def)
  then have l: "includes_str ?l ?p" by (rule includes_strI)
  have inner: \<open>includes_str (str ''        '' @ jslines [
     str ''          <div style="text-align: center; font-size: 7pt; color: #856404; background: #fff3cd; border: 0.5pt dashed #ffc107; padding: 2px; margin-top: 5px; width: calc(100% - 90px);">'',
     ?l,
     str ''          </div>'',
     str ''        ''] @ []) ?p\<close>
    by (rule includes_append, rule includes_jslines [of ?l]) (simp_all add: l)
  show ?thesis
    unfolding getFooterTemplate_def Let_def
    by (rule includes_jslines [OF _ inner [simplified]]) simp
qed

text \<open>
  Claim C1, where the code departs from it. A controlled copy is asked for the recipient
  J. Smith on a host where the browser cannot be launched. The conversion succeeds through
  the fallback renderer, and the pages it saves have no text containing \<open>CONTROLLED COPY\<close>
  or the recipient's name: \<open>convertWordToPDFAlternative\<close> receives \<open>controlCopyInfo\<close>
  and never reads it. The footer of the primary renderer, for the same input, has the
  stamp with the name.
\<close>

theorem fallback_draws_no_controlled_copy_stamp:
  "fst (convertWordToPDF launchFails wordFile sopDocument (Some jSmith) start)
     = Inr (str ''/app/pdfs/QC-SOP-001_v2_fallback_1700000000000.pdf'')
   \<and> PdfDocSave (composePages launchFails sopDocument (str ''Scope''))
       \<in> set (trace (snd (convertWordToPDF launchFails wordFile sopDocument (Some jSmith) start)))
   \<and> filter (\<lambda>op. includes_str (opText op) (str ''CONTROLLED COPY'')
                  \<or> includes_str (opText op) (str ''J. Smith''))
        (concat (composePages launchFails sopDocument (str ''Scope''))) = []
   \<and> includes_str (getFooterTemplate launchFails sopDocument (Some jSmith))
        (str ''CONTROLLED COPY - NOT FOR REPRODUCTION | Printed by: J. Smith'')"
proof -
  have name: "docNumber sopDocument @ str ''_v'' @ template_number (revisionNo sopDocument)
       @ str ''_fallback_'' @ showNat 1700000000000 @ str ''.pdf''
       = str ''QC-SOP-001_v2_fallback_1700000000000.pdf''"
    by (simp add: sopDocument_def template_number_def showNat.simps str_def)
  have "path_join (str ''/app/pdfs'') (str ''QC-SOP-001_v2_fallback_1700000000000.pdf'')
          = str ''/app/pdfs/QC-SOP-001_v2_fallback_1700000000000.pdf''"
    by (simp add: path_join_def path_normalize_def str_def Let_def)
  with name have r: "fst (convertWordToPDF launchFails wordFile sopDocument (Some jSmith) start)
     = Inr (str ''/app/pdfs/QC-SOP-001_v2_fallback_1700000000000.pdf'')"
    by (simp add: coordinator_run launchFails_primary launchFails_fallback(1) pdfsDir_launchFails)
  have t: "PdfDocSave (composePages launchFails sopDocument (str ''Scope''))
       \<in> set (trace (snd (convertWordToPDF launchFails wordFile sopDocument (Some jSmith) start)))"
    using launchFails_fallback(2) [of sopDocument wordFile "Some jSmith"]
    by (simp add: coordinator_run launchFails_primary)
  have texts: "map opText (concat (composePages launchFails sopDocument (str ''Scope''))) =
     [str ''Document Name: Cleaning Procedure | Document Number: QC-SOP-001'',
      [], [],
      str ''Issue No: 01 | Revision No: 2'',
      str ''Date of Issue: 3/5/2024 | Due Date: N/A'',
      str ''Page: 1 of 1'',
      str ''Scope'']"
    by (simp add: composePages_Scope drawHeader_texts_sop)
  have "filter (\<lambda>t. includes_str t (str ''CONTROLLED COPY'') \<or> includes_str t (str ''J. Smith''))
          (map opText (concat (composePages launchFails sopDocument (str ''Scope'')))) = []"
    unfolding texts by (simp add: str_def)
  then have f: "filter (\<lambda>op. includes_str (opText op) (str ''CONTROLLED COPY'')
                  \<or> includes_str (opText op) (str ''J. Smith''))
        (concat (composePages launchFails sopDocument (str ''Scope''))) = []"
    by (rule filter_opText [where P = "\<lambda>t. includes_str t (str ''CONTROLLED COPY'')
                                          \<or> includes_str t (str ''J. Smith'')"])
  have "userFullName jSmith = str ''J. Smith''" by (simp add: jSmith_def)
  with footer_has_stamp [of launchFails sopDocument jSmith]
  have s: "includes_str (getFooterTemplate launchFails sopDocument (Some jSmith))
        (str ''CONTROLLED COPY - NOT FOR REPRODUCTION | Printed by: J. Smith'')"
    by (simp add: str_def)
  from r t f s show ?thesis by blast
qed

subsection \<open>The fields of the header and of the footer\<close>

lemma includes_template_line:
  assumes "(a @ lab) @ v @ post \<in> set ls"
  shows "includes_str (jslines ls) (lab @ v @ post)"
proof -
  have "(a @ lab) @ v @ post = a @ (lab @ v @ post) @ []" by simp
  then have "includes_str ((a @ lab) @ v @ post) (lab @ v @ post)" by (rule includes_strI)
  with assms show ?thesis by (rule includes_jslines)
qed

lemma getHeaderTemplate_issueNo:
  \<open>includes_str (getHeaderTemplate w d)
     (str ''<span class="bold-text">Issue No:</span> '' @ or_else (issueNo d) (str ''01'') @ str ''</td>'')\<close>
  unfolding getHeaderTemplate_def Let_def
  by (rule includes_template_line [where a = \<open>str ''            <td style="width: 15%;">''\<close>])
     (simp add: str_def)


lemma getHeaderTemplate_revisionNo:
  \<open>includes_str (getHeaderTemplate w d)
     (str ''<span class="bold-text">Rev. No:</span> '' @ showNat (number_or_zero (revisionNo d))
      @ str ''</td>'')\<close>
  unfolding getHeaderTemplate_def Let_def
  by (rule includes_template_line [where a = \<open>str ''            <td style="width: 15%;">''\<close>])
     (simp add: str_def)

lemma getHeaderTemplate_dateOfIssue:
  \<open>includes_str (getHeaderTemplate w d)
     (str ''<span class="bold-text">Date of Issue:</span> ''
      @ (case dateOfIssue d of Some x \<Rightarrow> toLocaleDateString_en_GB x
                             | None \<Rightarrow> toLocaleDateString_en_GB (today w))
      @ str ''</td>'')\<close>
  unfolding getHeaderTemplate_def Let_def
  by (rule includes_template_line [where a = \<open>str ''            <td style="width: 25%;">''\<close>])
     (simp add: str_def)

lemma getHeaderTemplate_dueDate:
  \<open>includes_str (getHeaderTemplate w d)
     (str ''<span class="bold-text">Due Date of Rev. :</span> ''
      @ (case reviewDueDate d of Some x \<Rightarrow> toLocaleDateString_en_GB x | None \<Rightarrow> str ''N/A'')
      @ str ''</div>'')\<close>
  unfolding getHeaderTemplate_def Let_def
  by (rule includes_template_line [where a = \<open>str ''              <div class="nowrap">''\<close>])
     (simp add: str_def)

lemma getHeaderTemplate_department:
  \<open>includes_str (getHeaderTemplate w d)
     (str ''<span class="bold-text">Dept. :</span> ''
      @ or_else (case departmentNames d of Some (x # xs) \<Rightarrow> Some x | _ \<Rightarrow> None)
          (str ''Management Representative'')
      @ str ''</td>'')\<close>
  unfolding getHeaderTemplate_def Let_def
  by (rule includes_template_line [where a = \<open>str ''            <td colspan="2">''\<close>])
     (simp add: str_def)

lemma getHeaderTemplate_title:
  \<open>includes_str (getHeaderTemplate w d)
     (str ''<span class="bold-text">Title :</span> '' @ docName d @ str ''</td>'')\<close>
  unfolding getHeaderTemplate_def Let_def
  by (rule includes_template_line [where a = \<open>str ''            <td colspan="2">''\<close>])
     (simp add: str_def)

lemma getHeaderTemplate_docNumber:
  \<open>includes_str (getHeaderTemplate w d)
     (str ''<span class="bold-text">Doc. No:</span> '' @ docNumber d @ str ''</td>'')\<close>
  unfolding getHeaderTemplate_def Let_def
  by (rule includes_template_line [where a = \<open>str ''            <td>''\<close>])
     (simp add: str_def)

lemma getHeaderTemplate_company:
  \<open>includes_str (getHeaderTemplate w d)
     (str ''NEELIKON FOOD DYES AND CHEMICALS LIMITED'' @ [] @ str ''</td>'')\<close>
  unfolding getHeaderTemplate_def Let_def
  by (rule includes_template_line
        [where a = \<open>str ''            <td colspan="5" class="company-name">''\<close>])
     (simp add: str_def)

lemma getFooterTemplate_status:
  "includes_str (getFooterTemplate w d c) (toUpperCase w (status d))"
proof -
  have "includes_str (str ''              '' @ toUpperCase w (status d))
          (toUpperCase w (status d))"
    by (rule includes_strI [where a = "str ''              ''" and b = "[]"]) simp
  then show ?thesis
    unfolding getFooterTemplate_def Let_def
    by (rule includes_jslines [rotated]) simp
qed

subsection \<open>Dates (claim C6) and the fields of both paths (claim C4)\<close>

lemma drawHeader_texts_host:
  "map opText (drawHeader hostWorld sopDocument) =
     [str ''Document Name: Cleaning Procedure | Document Number: QC-SOP-001'',
      [], [],
      str ''Issue No: 01 | Revision No: 2'',
      str ''Date of Issue: 3/5/2024 | Due Date: N/A'',
      str ''Page: 1 of 1'']"
  by (simp add: drawHeader_def hostWorld_def sopDocument_def Let_def
        substring_def or_else_def number_or_zero_def asciiToUpperCase_def
        toLocaleDateString_en_US_def showNat.simps str_def)

text \<open>
  Claim C6, where the code departs from it. On a host whose default locale is \<open>en-US\<close>,
  for a document issued on 5 March 2024 and due for review on 5 March 2025, the fallback
  header shows \<open>3/5/2024\<close> and \<open>3/5/2025\<close>: \<open>drawHeader\<close> calls
  \<open>toLocaleDateString()\<close> without the locale that \<open>getHeaderTemplate\<close> passes. The
  primary header shows \<open>05/03/2024\<close> and \<open>05/03/2025\<close>.
\<close>

theorem fallback_dates_follow_host_locale:
  \<open>drawHeader hostWorld datedDocument ! 4
     = DrawText (str ''Date of Issue: 3/5/2024 | Due Date: 3/5/2025'') 45 (height - 100) 9 Helvetica
   \<and> includes_str (getHeaderTemplate hostWorld datedDocument)
        (str ''<span class="bold-text">Date of Issue:</span> 05/03/2024</td>'')
   \<and> includes_str (getHeaderTemplate hostWorld datedDocument)
        (str ''<span class="bold-text">Due Date of Rev. :</span> 05/03/2025</div>'')\<close>
proof -
  have a: "drawHeader hostWorld datedDocument ! 4
     = DrawText (str ''Date of Issue: 3/5/2024 | Due Date: 3/5/2025'') 45 (height - 100) 9 Helvetica"
    by (simp add: drawHeader_def hostWorld_def datedDocument_def sopDocument_def Let_def
          toLocaleDateString_en_US_def showNat.simps str_def)
  have d: "(case dateOfIssue datedDocument of Some x \<Rightarrow> toLocaleDateString_en_GB x
             | None \<Rightarrow> toLocaleDateString_en_GB (today hostWorld)) = str ''05/03/2024''"
    "(case reviewDueDate datedDocument of Some x \<Rightarrow> toLocaleDateString_en_GB x
             | None \<Rightarrow> str ''N/A'') = str ''05/03/2025''"
    by (simp_all add: datedDocument_def sopDocument_def toLocaleDateString_en_GB_def pad2_def
          showNat.simps str_def)
  from getHeaderTemplate_dateOfIssue [of hostWorld datedDocument]
  have b: \<open>includes_str (getHeaderTemplate hostWorld datedDocument)
        (str ''<span class="bold-text">Date of Issue:</span> 05/03/2024</td>'')\<close>
    unfolding d by (simp add: str_def)
  from getHeaderTemplate_dueDate [of hostWorld datedDocument]
  have c: \<open>includes_str (getHeaderTemplate hostWorld datedDocument)
        (str ''<span class="bold-text">Due Date of Rev. :</span> 05/03/2025</div>'')\<close>
    unfolding d by (simp add: str_def)
  from a b c show ?thesis by blast
qed

lemma includes_jslines_line:
  assumes "l \<in> set (butlast ls)"
  shows "includes_str (jslines ls) (0x0A # l @ [0x0A])"
proof -
  from assms obtain xs zs where b: "butlast ls = xs @ l # zs" by (meson split_list)
  then have ne: "ls \<noteq> []" by auto
  then have "ls = butlast ls @ [last ls]" by simp
  with b have ls: "ls = xs @ l # zs @ [last ls]" by simp
  obtain y ys where y: "zs @ [last ls] = y # ys" by (cases zs) auto
  have "jslines ls = jslines xs @ (0x0A # l @ [0x0A]) @ (y @ jslines ys)"
    by (subst ls) (simp add: jslines_def y)
  then show ?thesis by (rule includes_strI)
qed

lemma getHeaderTemplate_banner:
  \<open>includes_str (getHeaderTemplate w d)
     (str ''<td colspan="5" class="company-name">NEELIKON FOOD DYES AND CHEMICALS LIMITED</td>''
      @ [] @ [])\<close>
  unfolding getHeaderTemplate_def Let_def
  by (rule includes_template_line [where a = \<open>str ''            ''\<close>]) (simp add: str_def)

lemma getHeaderTemplate_headerInfo:
  "getHeaderTemplate w (d\<lparr>headerInfo := h\<rparr>) = getHeaderTemplate w d"
  by (simp add: getHeaderTemplate_def)

lemma getFooterTemplate_preparer:
  \<open>includes_str (getFooterTemplate w d c)
     (str ''<span class="footer-value">''
      @ or_else (preparerName d)
          (or_else (Option.bind (creatorData d) fullName) (str ''Asst. MR''))
      @ str ''</span>'')\<close>
  unfolding getFooterTemplate_def Let_def
  by (rule includes_template_line [where a = \<open>str ''              ''\<close>]) (simp add: str_def)

lemma getFooterTemplate_approver:
  \<open>includes_str (getFooterTemplate w d c)
     (str ''<span class="footer-value">''
      @ or_else (approverName d)
          (or_else (Option.bind (approverData d) fullName) (str ''HOD''))
      @ str ''</span>'')\<close>
  unfolding getFooterTemplate_def Let_def
  by (rule includes_template_line [where a = \<open>str ''              ''\<close>]) (simp add: str_def)

lemma getFooterTemplate_issuer:
  \<open>includes_str (getFooterTemplate w d c)
     (str ''<span class="footer-value">''
      @ or_else (issuerName d)
          (or_else (Option.bind (issuerData d) fullName)
             (str ''Management Representative { MR }''))
      @ str ''</span>'')\<close>
  unfolding getFooterTemplate_def Let_def
  by (rule includes_template_line [where a = \<open>str ''              ''\<close>]) (simp add: str_def)

lemma getFooterTemplate_status_line:
  "includes_str (getFooterTemplate w d c)
     (0x0A # (str ''              '' @ toUpperCase w (status d)) @ [0x0A])"
  unfolding getFooterTemplate_def Let_def
  by (rule includes_jslines_line) simp

lemma drawHeader_other_fields:
  "drawHeader w (d\<lparr>status := st, departmentNames := dn, preparerName := pn, approverName := an,
                    issuerName := isn, creatorData := cd, approverData := ad, issuerData := idt\<rparr>)
     = drawHeader w d"
  by (simp add: drawHeader_def)

lemma composePages_other_fields:
  "composePages w (d\<lparr>status := st, departmentNames := dn, preparerName := pn, approverName := an,
                      issuerName := isn, creatorData := cd, approverData := ad, issuerData := idt\<rparr>)
     content'
     = composePages w d content'"
  unfolding composePages_def drawHeader_other_fields by (rule refl)

text \<open>
  Claim C4, as amended. For every document, both rendering paths show the same issue
  number (default \<open>01\<close>) and revision number (default 0); both show the document name and
  the document number, which the fallback cuts to 60 and to 30 code units; and for a
  document without a review due date both show \<open>N/A\<close> as the due date. The rest of the
  header and footer content is not shared. The banner of the primary path is a fixed
  company name, whatever \<open>headerInfo\<close> is; the banner of the fallback is the upper-cased
  \<open>headerInfo\<close>, cut to 70 code units. The primary path shows the department in its
  header and the preparer, the approver, the issuer (names or placeholders) and the
  upper-cased status in its footer; every page of the fallback is its header block
  followed by body lines, with no footer, and is the same whatever the department, the
  names of the roles and the status are.
\<close>

theorem header_fields_in_both_paths:
  \<open>includes_str (getHeaderTemplate w d)
      (str ''<span class="bold-text">Issue No:</span> '' @ or_else (issueNo d) (str ''01'')
       @ str ''</td>'')
   \<and> includes_str (getHeaderTemplate w d)
      (str ''<span class="bold-text">Rev. No:</span> '' @ showNat (number_or_zero (revisionNo d))
       @ str ''</td>'')
   \<and> drawHeader w d ! 3
       = DrawText (str ''Issue No: '' @ or_else (issueNo d) (str ''01'')
                   @ str '' | Revision No: '' @ showNat (number_or_zero (revisionNo d)))
           45 (height - 85) 9 Helvetica
   \<and> includes_str (getHeaderTemplate w d)
      (str ''<span class="bold-text">Title :</span> '' @ docName d @ str ''</td>'')
   \<and> includes_str (getHeaderTemplate w d)
      (str ''<span class="bold-text">Doc. No:</span> '' @ docNumber d @ str ''</td>'')
   \<and> drawHeader w d ! 0
       = DrawText (str ''Document Name: '' @ take 60 (docName d)
                   @ str '' | Document Number: '' @ take 30 (docNumber d))
           45 (height - 30) 9 HelveticaBold
   \<and> (reviewDueDate d = None \<longrightarrow>
        includes_str (getHeaderTemplate w d)
          (str ''<span class="bold-text">Due Date of Rev. :</span> N/A</div>'')
        \<and> drawHeader w d ! 4
            = DrawText (str ''Date of Issue: ''
                        @ (case dateOfIssue d of
                             Some x \<Rightarrow> toLocaleDateString_default w x
                           | None \<Rightarrow> toLocaleDateString_default w (today w))
                        @ str '' | Due Date: N/A'')
                45 (height - 100) 9 Helvetica)
   \<and> includes_str (getHeaderTemplate w d)
      (str ''<td colspan="5" class="company-name">NEELIKON FOOD DYES AND CHEMICALS LIMITED</td>'')
   \<and> getHeaderTemplate w (d\<lparr>headerInfo := h\<rparr>) = getHeaderTemplate w d
   \<and> drawHeader w d ! 2
       = DrawText (take 70 (toUpperCase w (or_else (headerInfo d) [])))
           50 (height - 60) 11 HelveticaBold
   \<and> includes_str (getHeaderTemplate w d)
      (str ''<span class="bold-text">Dept. :</span> ''
       @ or_else (case departmentNames d of Some (x # xs) \<Rightarrow> Some x | _ \<Rightarrow> None)
           (str ''Management Representative'')
       @ str ''</td>'')
   \<and> includes_str (getFooterTemplate w d c)
      (str ''<span class="footer-value">''
       @ or_else (preparerName d)
           (or_else (Option.bind (creatorData d) fullName) (str ''Asst. MR''))
       @ str ''</span>'')
   \<and> includes_str (getFooterTemplate w d c)
      (str ''<span class="footer-value">''
       @ or_else (approverName d)
           (or_else (Option.bind (approverData d) fullName) (str ''HOD''))
       @ str ''</span>'')
   \<and> includes_str (getFooterTemplate w d c)
      (str ''<span class="footer-value">''
       @ or_else (issuerName d)
           (or_else (Option.bind (issuerData d) fullName)
              (str ''Management Representative { MR }''))
       @ str ''</span>'')
   \<and> includes_str (getFooterTemplate w d c)
      (0x0A # (str ''              '' @ toUpperCase w (status d)) @ [0x0A])
   \<and> composePages w
        (d\<lparr>status := st, departmentNames := dn, preparerName := pn, approverName := an,
           issuerName := isn, creatorData := cd, approverData := ad, issuerData := idt\<rparr>)
        content'
       = composePages w d content'
   \<and> (\<forall>p \<in> set (composePages w d content').
         \<exists>body. p = drawHeader w d @ body \<and> bodyFrom 0 body \<and> length body \<le> 35)\<close>
proof -
  have h: "drawHeader w d ! 3
       = DrawText (str ''Issue No: '' @ or_else (issueNo d) (str ''01'')
                   @ str '' | Revision No: '' @ showNat (number_or_zero (revisionNo d)))
           45 (height - 85) 9 Helvetica"
    "drawHeader w d ! 0
       = DrawText (str ''Document Name: '' @ take 60 (docName d)
                   @ str '' | Document Number: '' @ take 30 (docNumber d))
           45 (height - 30) 9 HelveticaBold"
    "drawHeader w d ! 2
       = DrawText (take 70 (toUpperCase w (or_else (headerInfo d) [])))
           50 (height - 60) 11 HelveticaBold"
    by (simp_all add: drawHeader_def Let_def substring_def)
  have n: \<open>reviewDueDate d = None \<longrightarrow>
        includes_str (getHeaderTemplate w d)
          (str ''<span class="bold-text">Due Date of Rev. :</span> N/A</div>'')
        \<and> drawHeader w d ! 4
            = DrawText (str ''Date of Issue: ''
                        @ (case dateOfIssue d of
                             Some x \<Rightarrow> toLocaleDateString_default w x
                           | None \<Rightarrow> toLocaleDateString_default w (today w))
                        @ str '' | Due Date: N/A'')
                45 (height - 100) 9 Helvetica\<close>
  proof
    assume u: "reviewDueDate d = None"
    from getHeaderTemplate_dueDate [of w d] u
    have \<open>includes_str (getHeaderTemplate w d)
          (str ''<span class="bold-text">Due Date of Rev. :</span> N/A</div>'')\<close>
      by (simp add: str_def)
    moreover from u have "drawHeader w d ! 4
            = DrawText (str ''Date of Issue: ''
                        @ (case dateOfIssue d of
                             Some x \<Rightarrow> toLocaleDateString_default w x
                           | None \<Rightarrow> toLocaleDateString_default w (today w))
                        @ str '' | Due Date: N/A'')
                45 (height - 100) 9 Helvetica"
      by (simp add: drawHeader_def Let_def str_def)
    ultimately show \<open>includes_str (getHeaderTemplate w d)
          (str ''<span class="bold-text">Due Date of Rev. :</span> N/A</div>'')
        \<and> drawHeader w d ! 4
            = DrawText (str ''Date of Issue: ''
                        @ (case dateOfIssue d of
                             Some x \<Rightarrow> toLocaleDateString_default w x
                           | None \<Rightarrow> toLocaleDateString_default w (today w))
                        @ str '' | Due Date: N/A'')
                45 (height - 100) 9 Helvetica\<close> by blast
  qed
  have b: \<open>includes_str (getHeaderTemplate w d)
      (str ''<td colspan="5" class="company-name">NEELIKON FOOD DYES AND CHEMICALS LIMITED</td>'')\<close>
    using getHeaderTemplate_banner [of w d] by simp
  have pg: "\<forall>p \<in> set (composePages w d content').
         \<exists>body. p = drawHeader w d @ body \<and> bodyFrom 0 body \<and> length body \<le> 35"
    using composePages_pages [of _ w d content'] by blast
  from getHeaderTemplate_issueNo [of w d] getHeaderTemplate_revisionNo [of w d]
    getHeaderTemplate_title [of w d] getHeaderTemplate_docNumber [of w d] h n b
    getHeaderTemplate_headerInfo [where w = w and d = d and h = h] getHeaderTemplate_department [of w d]
    getFooterTemplate_preparer [of w d c] getFooterTemplate_approver [of w d c]
    getFooterTemplate_issuer [of w d c] getFooterTemplate_status_line [of w d c]
    composePages_other_fields [where w = w and d = d and st = st and dn = dn and pn = pn and an = an
      and isn = isn and cd = cd and ad = ad and idt = idt and content' = content'] pg
  show ?thesis by blast
qed

text \<open>
  Witness for C4: the document of scenario A, which has no review due date and no preparer,
  and a one-page content.
\<close>

theorem header_fields_in_both_paths_witness:
  \<open>reviewDueDate sopDocument = None
   \<and> includes_str (getHeaderTemplate hostWorld sopDocument)
        (str ''<span class="bold-text">Due Date of Rev. :</span> N/A</div>'')
   \<and> map opText (drawHeader hostWorld sopDocument) ! 4
        = str ''Date of Issue: 3/5/2024 | Due Date: N/A''
   \<and> includes_str (getHeaderTemplate hostWorld sopDocument)
        (str ''<span class="bold-text">Issue No:</span> 01</td>'')
   \<and> map opText (drawHeader hostWorld sopDocument) ! 3 = str ''Issue No: 01 | Revision No: 2''
   \<and> includes_str (getFooterTemplate hostWorld sopDocument None)
        (str ''<span class="footer-value">Asst. MR</span>'')
   \<and> composePages hostWorld sopDocument (str ''Scope'') \<noteq> []
   \<and> take 6 (hd (composePages hostWorld sopDocument (str ''Scope'')))
        = drawHeader hostWorld sopDocument\<close>
proof -
  have u: "reviewDueDate sopDocument = None" "issueNo sopDocument = None"
    "preparerName sopDocument = None" "creatorData sopDocument = None"
    by (simp_all add: sopDocument_def)
  note inst = header_fields_in_both_paths
    [where w = hostWorld and d = sopDocument and c = None and content' = "str ''Scope''"]
  from inst u(1)
  have a: \<open>includes_str (getHeaderTemplate hostWorld sopDocument)
        (str ''<span class="bold-text">Due Date of Rev. :</span> N/A</div>'')\<close>
    and b: \<open>includes_str (getHeaderTemplate hostWorld sopDocument)
      (str ''<span class="bold-text">Issue No:</span> '' @ or_else (issueNo sopDocument) (str ''01'')
       @ str ''</td>'')\<close>
    and c: \<open>includes_str (getFooterTemplate hostWorld sopDocument None)
      (str ''<span class="footer-value">''
       @ or_else (preparerName sopDocument)
           (or_else (Option.bind (creatorData sopDocument) fullName) (str ''Asst. MR''))
       @ str ''</span>'')\<close>
    and pg: "\<forall>p \<in> set (composePages hostWorld sopDocument (str ''Scope'')).
         \<exists>body. p = drawHeader hostWorld sopDocument @ body \<and> bodyFrom 0 body \<and> length body \<le> 35"
    by blast+
  have ne: "composePages hostWorld sopDocument (str ''Scope'') \<noteq> []"
    by (simp add: composePages_Scope)
  then have "hd (composePages hostWorld sopDocument (str ''Scope''))
               \<in> set (composePages hostWorld sopDocument (str ''Scope''))" by simp
  with pg obtain body where
    "hd (composePages hostWorld sopDocument (str ''Scope'')) = drawHeader hostWorld sopDocument @ body"
    by blast
  then have t: "take 6 (hd (composePages hostWorld sopDocument (str ''Scope'')))
        = drawHeader hostWorld sopDocument"
    by (simp add: length_drawHeader)
  have e: "map opText (drawHeader hostWorld sopDocument) ! 4
        = str ''Date of Issue: 3/5/2024 | Due Date: N/A''"
    "map opText (drawHeader hostWorld sopDocument) ! 3 = str ''Issue No: 01 | Revision No: 2''"
    by (simp_all add: drawHeader_texts_host)
  from b have b': \<open>includes_str (getHeaderTemplate hostWorld sopDocument)
        (str ''<span class="bold-text">Issue No:</span> 01</td>'')\<close>
    by (simp add: u or_else_def str_def)
  from c have c': \<open>includes_str (getFooterTemplate hostWorld sopDocument None)
        (str ''<span class="footer-value">Asst. MR</span>'')\<close>
    by (simp add: u or_else_def str_def)
  from u(1) a e b' c' ne t show ?thesis by blast
qed

text \<open>
  Counterexample to C4 as stated: the company banner, the department and the status are
  in the header and footer of the primary path, and no text of the fallback header
  contains them.
\<close>

theorem header_content_differs_counterexample:
  \<open>includes_str (getHeaderTemplate hostWorld sopDocument)
      (str ''NEELIKON FOOD DYES AND CHEMICALS LIMITED</td>'')
   \<and> filter (\<lambda>op. includes_str (opText op) (str ''NEELIKON'')) (drawHeader hostWorld sopDocument) = []
   \<and> includes_str (getHeaderTemplate hostWorld sopDocument)
      (str ''<span class="bold-text">Dept. :</span> Management Representative</td>'')
   \<and> filter (\<lambda>op. includes_str (opText op) (str ''Management Representative''))
        (drawHeader hostWorld sopDocument) = []
   \<and> includes_str (getFooterTemplate hostWorld sopDocument None) (str ''APPROVED'')
   \<and> filter (\<lambda>op. includes_str (opText op) (str ''APPROVED'')) (drawHeader hostWorld sopDocument) = []\<close>
proof -
  have a: \<open>includes_str (getHeaderTemplate hostWorld sopDocument)
      (str ''NEELIKON FOOD DYES AND CHEMICALS LIMITED</td>'')\<close>
    using getHeaderTemplate_company [of hostWorld sopDocument] by (simp add: str_def)
  have b: \<open>includes_str (getHeaderTemplate hostWorld sopDocument)
      (str ''<span class="bold-text">Dept. :</span> Management Representative</td>'')\<close>
    using getHeaderTemplate_department [of hostWorld sopDocument]
    by (simp add: sopDocument_def or_else_def str_def)
  have "toUpperCase hostWorld (status sopDocument) = str ''APPROVED''"
    by (simp add: hostWorld_def sopDocument_def asciiToUpperCase_def str_def)
  with getFooterTemplate_status [of hostWorld sopDocument None]
  have c: "includes_str (getFooterTemplate hostWorld sopDocument None) (str ''APPROVED'')"
    by simp
  have "filter (\<lambda>t. includes_str t (str ''NEELIKON'')) (map opText (drawHeader hostWorld sopDocument)) = []"
    unfolding drawHeader_texts_host by (simp add: str_def)
  then have d: "filter (\<lambda>op. includes_str (opText op) (str ''NEELIKON'')) (drawHeader hostWorld sopDocument) = []"
    by (rule filter_opText [where P = "\<lambda>t. includes_str t (str ''NEELIKON'')"])
  have "filter (\<lambda>t. includes_str t (str ''Management Representative''))
          (map opText (drawHeader hostWorld sopDocument)) = []"
    unfolding drawHeader_texts_host by (simp add: str_def)
  then have e: "filter (\<lambda>op. includes_str (opText op) (str ''Management Representative''))
        (drawHeader hostWorld sopDocument) = []"
    by (rule filter_opText [where P = "\<lambda>t. includes_str t (str ''Management Representative'')"])
  have "filter (\<lambda>t. includes_str t (str ''APPROVED'')) (map opText (drawHeader hostWorld sopDocument)) = []"
    unfolding drawHeader_texts_host by (simp add: str_def)
  then have f: "filter (\<lambda>op. includes_str (opText op) (str ''APPROVED'')) (drawHeader hostWorld sopDocument) = []"
    by (rule filter_opText [where P = "\<lambda>t. includes_str t (str ''APPROVED'')"])
  from a b c d e f show ?thesis by blast
qed

end
